theory Spec2Isabelle
  imports Main
begin

section \<open>Geometry primitives\<close>

text \<open>
  Modelled from the spec: the two-component integer vector \<open>int2\<close> is declared outside
  \<open>WM_Window.ts\<close>. The spec (section 3) gives it integer components and the operations
  add, subtract, component-wise multiply, component-wise min/max and "min-with-zero"
  (each component clamped to at most 0). \<open>new int2(v)\<close> with one argument sets both
  components to \<open>v\<close>. The components are JavaScript numbers that hold integers; they are
  unbounded integers here. Vectors are treated as values: nothing proved below depends on
  two fields sharing one vector object.
\<close>

datatype int2 = int2 (x_of: int) (y_of: int)

definition int2_new1 :: "int \<Rightarrow> int2" where
  "int2_new1 v = int2 v v"

definition int2_One :: int2 where
  "int2_One = int2 1 1"

definition int2_Add :: "int2 \<Rightarrow> int2 \<Rightarrow> int2" where
  "int2_Add a b = int2 (x_of a + x_of b) (y_of a + y_of b)"

definition int2_Sub :: "int2 \<Rightarrow> int2 \<Rightarrow> int2" where
  "int2_Sub a b = int2 (x_of a - x_of b) (y_of a - y_of b)"

definition int2_Mul :: "int2 \<Rightarrow> int2 \<Rightarrow> int2" where
  "int2_Mul a b = int2 (x_of a * x_of b) (y_of a * y_of b)"

definition int2_Min0 :: "int2 \<Rightarrow> int2" where
  "int2_Min0 a = int2 (min (x_of a) 0) (min (y_of a) 0)"

definition int2_Min :: "int2 \<Rightarrow> int2 \<Rightarrow> int2" where
  "int2_Min a b = int2 (min (x_of a) (x_of b)) (min (y_of a) (y_of b))"

definition int2_Max :: "int2 \<Rightarrow> int2 \<Rightarrow> int2" where
  "int2_Max a b = int2 (max (x_of a) (x_of b)) (max (y_of a) (y_of b))"

definition int2_Copy :: "int2 \<Rightarrow> int2" where
  "int2_Copy a = int2 (x_of a) (y_of a)"

text \<open>
  Modelled from the spec: \<open>AABB\<close> is declared outside \<open>WM_Window.ts\<close>. The spec gives it a
  min and a max corner, an outward expansion by a tolerance and the "standard
  rectangle-overlap test using min/max corners".
\<close>

datatype AABB = AABB (aabb_min: int2) (aabb_max: int2)

definition AABB_Expand :: "int \<Rightarrow> AABB \<Rightarrow> AABB" where
  "AABB_Expand e b =
     AABB (int2_Sub (aabb_min b) (int2_new1 e)) (int2_Add (aabb_max b) (int2_new1 e))"

definition AABB_Intersect :: "AABB \<Rightarrow> AABB \<Rightarrow> bool" where
  "AABB_Intersect a b \<longleftrightarrow>
     x_of (aabb_min a) < x_of (aabb_max b) \<and> y_of (aabb_min a) < y_of (aabb_max b) \<and>
     x_of (aabb_min b) < x_of (aabb_max a) \<and> y_of (aabb_min b) < y_of (aabb_max a)"

section \<open>Data model\<close>

datatype Side = Left | Right | Top | Bottom

text \<open>
  Modelled from the spec: \<open>Ruler\<close>, \<open>RulerOrient\<close> and \<open>SnapCode\<close> are declared outside
  \<open>WM_Window.ts\<close>. A ruler is constructed from an orientation and a coordinate, has
  \<open>SetPosition\<close> and a colour. A snap code is a bitmask over the two axes;
  \<open>SnapCode.None\<close> has neither bit, \<open>code & SnapCode.X\<close> reads \<open>SnapX\<close>.
\<close>

datatype RulerOrient = Vertical | Horizontal

record Ruler =
  Orient :: RulerOrient
  RulerPosition :: int
  Colour :: string

record SnapCode =
  SnapX :: bool
  SnapY :: bool

definition SnapCode_None :: SnapCode where
  "SnapCode_None = \<lparr>SnapX = False, SnapY = False\<rparr>"

text \<open>
  Objects live in a store indexed by address; a reference is an address or \<open>null\<close>
  (\<open>None\<close>). An entry of \<open>AnchorControls\<close> is the triple
  \<open>[Control, int2, number]\<close>: the control, its mask and its offset scale.
\<close>

type_synonym cref = "nat option"

type_synonym anchor = "cref \<times> int2 \<times> int"

text \<open>
  Modelled from the spec: the base class \<open>Control\<close> is declared outside \<open>WM_Window.ts\<close>.
  A panel has a position and a size, \<open>TopLeft = position\<close> and
  \<open>BottomRight = position + size\<close>, and a back-reference to its container, which is
  \<open>null\<close> while the panel is not attached. \<open>ParentNode\<close> holds the absolute position of
  the parent DOM node when there is one.
\<close>

record Control =
  Position :: int2
  Size :: int2
  ParentContainer :: cref
  ParentNode :: "int2 option"

text \<open>
  The fields of \<open>class Window\<close>. \<open>BodyNodeSize\<close> is the size of the DOM node
  \<open>ControlParentNode\<close> (the window body). A size delegate is the closure installed at
  gesture begin; it is represented by the mask it captures.
\<close>

record Window = Control +
  SideBarSize :: int
  BodyNodeSize :: int2
  DragMouseStartPosition :: int2
  DragWindowStartPosition :: int2
  DragWindowStartSize :: int2
  AnchorControls :: "anchor list"
  SnapRulers :: "Side \<Rightarrow> Ruler option"
  SizerMoved :: bool
  OnSizeDelegate :: "int2 option"
  OnEndSizeDelegate :: "int2 option"

datatype obj = WindowObj Window | ControlObj Control

text \<open>
  The state: the object store and the pending one-shot timers, each a delay in
  milliseconds and the window whose detach callback it runs.
\<close>

record world =
  objs :: "nat \<Rightarrow> obj"
  timers :: "(nat \<times> nat) list"

record MouseEvent =
  MousePosition :: int2

definition GetMousePosition :: "MouseEvent \<Rightarrow> int2" where
  "GetMousePosition event = MousePosition event"

text \<open>
  A JavaScript exception is a value. A handler that throws leaves the store as it was at
  the throw, so the error carries the state: \<open>Inl (e, s)\<close>. The handlers below are methods
  of \<open>Window\<close>; entered on an object that is not a window, where the method is undefined,
  they throw a TypeError.
\<close>

datatype error = TypeError

type_synonym outcome = "(error \<times> world) + world"

definition final :: "outcome \<Rightarrow> world" where
  "final r = (case r of Inl (e, s) \<Rightarrow> s | Inr s \<Rightarrow> s)"

definition put_Window :: "nat \<Rightarrow> Window \<Rightarrow> world \<Rightarrow> world" where
  "put_Window w W s = s\<lparr>objs := (objs s)(w := WindowObj W)\<rparr>"

definition upd_Window :: "nat \<Rightarrow> (Window \<Rightarrow> Window) \<Rightarrow> world \<Rightarrow> world" where
  "upd_Window w f s =
     (case objs s w of WindowObj W \<Rightarrow> put_Window w (f W) s | ControlObj c \<Rightarrow> s)"

text \<open>Modelled from the spec: the corner accessors of \<open>Control\<close>.\<close>

definition TopLeft :: "'a Control_scheme \<Rightarrow> int2" where
  "TopLeft c = Position c"

definition BottomRight :: "'a Control_scheme \<Rightarrow> int2" where
  "BottomRight c = int2_Add (Position c) (Size c)"

text \<open>
  Modelled from the spec: assigning \<open>BottomRight\<close> keeps the position and changes the
  size; assigning \<open>TopLeft\<close> moves the position and keeps the bottom-right corner.
\<close>

definition set_BottomRight :: "int2 \<Rightarrow> Window \<Rightarrow> Window" where
  "set_BottomRight p W = W\<lparr>Size := int2_Sub p (Position W)\<rparr>"

definition set_TopLeft :: "int2 \<Rightarrow> Window \<Rightarrow> Window" where
  "set_TopLeft p W = W\<lparr>Position := p, Size := int2_Sub (BottomRight W) p\<rparr>"

definition obj_TopLeft :: "obj \<Rightarrow> int2" where
  "obj_TopLeft ob = (case ob of WindowObj W \<Rightarrow> TopLeft W | ControlObj c \<Rightarrow> TopLeft c)"

definition obj_BottomRight :: "obj \<Rightarrow> int2" where
  "obj_BottomRight ob =
     (case ob of WindowObj W \<Rightarrow> BottomRight W | ControlObj c \<Rightarrow> BottomRight c)"

text \<open>
  The container code is outside \<open>WM_Window.ts\<close>; the model takes it as a parameter.
  \<open>SnapBorderSize\<close> is the static \<open>Container.SnapBorderSize\<close>. \<open>SnapQuery\<close> is the search
  of \<open>GetSnapControls\<close>: from the state, the container, the reference point, the
  direction mask and the excluded controls it gives the snap code, the snapped point and
  the panels it discovers, each with its inferred mask.
\<close>

record ContainerCode =
  SnapBorderSize :: int
  SnapQuery :: "world \<Rightarrow> nat \<Rightarrow> int2 \<Rightarrow> int2 \<Rightarrow> cref list \<Rightarrow> SnapCode \<times> int2 \<times> (cref \<times> int2) list"

text \<open>
  Modelled from the spec: \<open>GetSnapControls(point, mask, excluding, controls, scale)\<close>
  returns the pair of snap code and snapped point and, when the out list \<open>controls\<close> is
  not \<open>null\<close>, appends the discovered panels to it "with the given scale and the inferred
  mask". The second component here is the list of entries it appends; a caller that
  passes \<open>null\<close> drops it.
\<close>

definition GetSnapControls ::
  "ContainerCode \<Rightarrow> world \<Rightarrow> nat \<Rightarrow> int2 \<Rightarrow> int2 \<Rightarrow> cref list \<Rightarrow> int
     \<Rightarrow> (SnapCode \<times> int2) \<times> anchor list" where
  "GetSnapControls C s c pos msk excluding offset_scale =
     (case SnapQuery C s c pos msk excluding of
        (code, p, found) \<Rightarrow> ((code, p), map (\<lambda>(ctl, m). (ctl, m, offset_scale)) found))"

text \<open>
  Modelled from the spec: \<open>UpdateControlSizes\<close> is container code, declared outside
  \<open>WM_Window.ts\<close>; the spec has it trigger the layout pass of the container, and it is
  taken to leave the fields of the windows in the store alone. The call
  \<open>this.ParentContainer.UpdateControlSizes()\<close> dereferences the parent container of window
  \<open>w\<close>, so it throws a TypeError when the reference is \<open>null\<close>.
\<close>

definition UpdateControlSizes_call :: "nat \<Rightarrow> world \<Rightarrow> outcome" where
  "UpdateControlSizes_call w s =
     (case objs s w of
        WindowObj W \<Rightarrow>
          (case ParentContainer W of None \<Rightarrow> Inl (TypeError, s) | Some pc \<Rightarrow> Inr s)
      | ControlObj c \<Rightarrow> Inl (TypeError, s))"

section \<open>Snap rulers\<close>

text \<open>
  \<open>ParentContainer.Add\<close> and \<open>ParentContainer.Remove\<close> change the render set of the
  container, which is not part of this state; the guard around them has no other
  effect.
\<close>

definition SetSnapRuler :: "Side \<Rightarrow> int \<Rightarrow> Window \<Rightarrow> Window" where
  "SetSnapRuler side position W =
     (case SnapRulers W side of
        None \<Rightarrow>
          (let orient = (if side = Left \<or> side = Right then Vertical else Horizontal)
           in W\<lparr>SnapRulers := (SnapRulers W)
                  (side := Some \<lparr>Orient = orient, RulerPosition = position, Colour = ''#FFF''\<rparr>)\<rparr>)
      | Some r \<Rightarrow>
          W\<lparr>SnapRulers := (SnapRulers W)(side := Some (r\<lparr>RulerPosition := position\<rparr>))\<rparr>)"

definition RemoveSnapRuler :: "Side \<Rightarrow> Window \<Rightarrow> Window" where
  "RemoveSnapRuler side W =
     (case SnapRulers W side of
        None \<Rightarrow> W
      | Some r \<Rightarrow> W\<lparr>SnapRulers := (SnapRulers W)(side := None)\<rparr>)"

definition RemoveSnapRulers :: "Window \<Rightarrow> Window" where
  "RemoveSnapRulers W =
     RemoveSnapRuler Bottom (RemoveSnapRuler Top (RemoveSnapRuler Right (RemoveSnapRuler Left W)))"

definition UpdateSnapRuler :: "Side \<Rightarrow> bool \<Rightarrow> int \<Rightarrow> Window \<Rightarrow> Window" where
  "UpdateSnapRuler side shown position W =
     (if shown then SetSnapRuler side position W else RemoveSnapRuler side W)"

definition UpdateTLSnapRulers :: "SnapCode \<Rightarrow> Window \<Rightarrow> Window" where
  "UpdateTLSnapRulers snap_code W =
     (let W1 = UpdateSnapRuler Top (SnapY snap_code) (y_of (TopLeft W) - 3) W
      in UpdateSnapRuler Left (SnapX snap_code) (x_of (TopLeft W1) - 3) W1)"

definition UpdateBRSnapRulers :: "SnapCode \<Rightarrow> Window \<Rightarrow> Window" where
  "UpdateBRSnapRulers snap_code W =
     (let W1 = UpdateSnapRuler Bottom (SnapY snap_code) (y_of (BottomRight W) + 1) W
      in UpdateSnapRuler Right (SnapX snap_code) (x_of (BottomRight W1) + 1) W1)"

section \<open>Window movement\<close>

text \<open>
  \<open>OnBeginMove\<close>, lines 184 to 206. Subscriptions to the events of the document and the
  suppression of the default action are outside this state, here and below.
\<close>

definition OnBeginMove :: "ContainerCode \<Rightarrow> world \<Rightarrow> MouseEvent \<Rightarrow> nat \<Rightarrow> outcome" where
  "OnBeginMove C s event w =
     (case objs s w of
        ControlObj c \<Rightarrow> Inl (TypeError, s)
      | WindowObj W0 \<Rightarrow>
          (let mouse_pos = GetMousePosition event;
               W1 = W0\<lparr>DragMouseStartPosition := mouse_pos,
                       DragWindowStartPosition := int2_Copy (Position W0)\<rparr>;
               s1 = put_Window w W1 s
           in case ParentContainer W1 of
                None \<Rightarrow> Inr s1
              | Some pc \<Rightarrow>
                  (let snap_tl = fst (GetSnapControls C s1 pc (TopLeft W1) (int2 (-1) (-1)) [Some w] 0);
                       snap_br = fst (GetSnapControls C s1 pc (BottomRight W1) (int2 1 1) [Some w] 0);
                       W2 = UpdateTLSnapRulers (fst snap_tl) W1;
                       W3 = UpdateBRSnapRulers (fst snap_br) W2
                   in Inr (put_Window w W3 s1))))"

text \<open>
  \<open>OnMove\<close>, lines 207 to 236. The position is set from the pointer offset, then
  overridden by the top-left snap and then by the bottom-right snap; the second query
  reads the corner of the window as the first override left it. The call of
  \<open>UpdateControlSizes\<close> after the guarded block is not guarded.
\<close>

definition OnMove_dragged :: "Window \<Rightarrow> MouseEvent \<Rightarrow> Window" where
  "OnMove_dragged W event =
     (let mouse_pos = GetMousePosition event;
          offset = int2_Sub mouse_pos (DragMouseStartPosition W)
      in W\<lparr>Position := int2_Add (DragWindowStartPosition W) offset\<rparr>)"

definition OnMove_snap_tl ::
  "ContainerCode \<Rightarrow> world \<Rightarrow> nat \<Rightarrow> nat \<Rightarrow> Window \<Rightarrow> SnapCode \<times> int2" where
  "OnMove_snap_tl C s pc w W =
     fst (GetSnapControls C (put_Window w W s) pc (TopLeft W) (int2 (- 1) (- 1)) [Some w] 0)"

definition OnMove_after_tl :: "SnapCode \<times> int2 \<Rightarrow> Window \<Rightarrow> Window" where
  "OnMove_after_tl snap_tl W =
     (if fst snap_tl \<noteq> SnapCode_None then W\<lparr>Position := snd snap_tl\<rparr> else W)"

definition OnMove_snap_br ::
  "ContainerCode \<Rightarrow> world \<Rightarrow> nat \<Rightarrow> nat \<Rightarrow> Window \<Rightarrow> SnapCode \<times> int2" where
  "OnMove_snap_br C s pc w W =
     fst (GetSnapControls C (put_Window w W s) pc (BottomRight W) (int2 1 1) [Some w] 0)"

definition OnMove_after_br :: "SnapCode \<times> int2 \<Rightarrow> Window \<Rightarrow> Window" where
  "OnMove_after_br snap_br W =
     (if fst snap_br \<noteq> SnapCode_None then W\<lparr>Position := int2_Sub (snd snap_br) (Size W)\<rparr>
      else W)"

definition OnMove :: "ContainerCode \<Rightarrow> world \<Rightarrow> MouseEvent \<Rightarrow> nat \<Rightarrow> outcome" where
  "OnMove C s event w =
     (case objs s w of
        ControlObj c \<Rightarrow> Inl (TypeError, s)
      | WindowObj W0 \<Rightarrow>
          (let W1 = OnMove_dragged W0 event;
               W5 = (case ParentContainer W1 of
                       None \<Rightarrow> W1
                     | Some pc \<Rightarrow>
                         (let snap_tl = OnMove_snap_tl C s pc w W1;
                              W2 = OnMove_after_tl snap_tl W1;
                              snap_br = OnMove_snap_br C s pc w W2;
                              W3 = OnMove_after_br snap_br W2;
                              W4 = UpdateTLSnapRulers (fst snap_tl) W3
                          in UpdateBRSnapRulers (fst snap_br) W4))
           in UpdateControlSizes_call w (put_Window w W5 s)))"

definition OnEndMove :: "world \<Rightarrow> nat \<Rightarrow> outcome" where
  "OnEndMove s w =
     (case objs s w of
        ControlObj c \<Rightarrow> Inl (TypeError, s)
      | WindowObj W \<Rightarrow> Inr (put_Window w (RemoveSnapRulers W) s))"

section \<open>Window sizing\<close>

text \<open>
  \<open>GetSizeMask\<close>, lines 249 to 271. The four tests run in the order of the source, each
  assigning over the result of the one before.
\<close>

definition GetSizeMask :: "Window \<Rightarrow> int2 \<Rightarrow> int2" where
  "GetSizeMask W mouse_pos0 =
     (let mouse_pos = (case ParentNode W of
                         Some parent_pos \<Rightarrow> int2_Sub mouse_pos0 parent_pos
                       | None \<Rightarrow> mouse_pos0);
          offset_top_left = int2_Sub mouse_pos (TopLeft W);
          offset_bottom_right = int2_Sub (BottomRight W) mouse_pos;
          mask_x0 = 0;
          mask_y0 = 0;
          mask_x1 = (if x_of offset_bottom_right < SideBarSize W \<and> x_of offset_bottom_right \<ge> 0
                     then 1 else mask_x0);
          mask_x2 = (if x_of offset_top_left < SideBarSize W \<and> x_of offset_top_left \<ge> 0
                     then - 1 else mask_x1);
          mask_y1 = (if y_of offset_bottom_right < SideBarSize W \<and> y_of offset_bottom_right \<ge> 0
                     then 1 else mask_y0);
          mask_y2 = (if y_of offset_top_left < SideBarSize W \<and> y_of offset_top_left \<ge> 0
                     then - 1 else mask_y1)
      in int2 mask_x2 mask_y2)"

definition SetResizeCursor :: "int2 \<Rightarrow> string" where
  "SetResizeCursor size_mask =
     (let cursor0 = '''';
          cursor1 = (if y_of size_mask > 0 then cursor0 @ ''s'' else cursor0);
          cursor2 = (if y_of size_mask < 0 then cursor1 @ ''n'' else cursor1);
          cursor3 = (if x_of size_mask > 0 then cursor2 @ ''e'' else cursor2);
          cursor4 = (if x_of size_mask < 0 then cursor3 @ ''w'' else cursor3)
      in if length cursor4 > 0 then cursor4 @ ''-resize'' else cursor4)"

text \<open>
  \<open>MakeControlAABB\<close>, lines 306 to 312: reading \<open>control.TopLeft\<close> of a \<open>null\<close> reference
  throws.
\<close>

definition MakeControlAABB :: "ContainerCode \<Rightarrow> world \<Rightarrow> cref \<Rightarrow> error + AABB" where
  "MakeControlAABB C s control =
     (case control of
        None \<Rightarrow> Inl TypeError
      | Some c \<Rightarrow>
          Inr (AABB_Expand (SnapBorderSize C)
                 (AABB (obj_TopLeft (objs s c)) (obj_BottomRight (objs s c)))))"

text \<open>
  \<open>TakeConnectedAnchorControls\<close>, lines 314 to 339. \<open>pool\<close> is \<open>this.AnchorControls\<close>,
  \<open>acc\<close> the list \<open>anchor_controls\<close> that receives the connected entries, \<open>box\<close> is
  \<open>MakeControlAABB\<close> in the current state. A taken entry is overwritten by the last one
  and the array loses its last cell; the index stays. When the box of an entry cannot be
  made, the loop stops with the pool as it is.
\<close>

function TakeConnectedAnchorControls ::
  "(cref \<Rightarrow> error + AABB) \<Rightarrow> AABB \<Rightarrow> nat \<Rightarrow> anchor list \<Rightarrow> anchor list
     \<Rightarrow> (error \<times> anchor list) + (anchor list \<times> anchor list)" where
  "TakeConnectedAnchorControls box aabb_0 i pool acc =
     (if i < length pool then
        (case box (fst (pool ! i)) of
           Inl e \<Rightarrow> Inl (e, pool)
         | Inr aabb_1 \<Rightarrow>
             if AABB_Intersect aabb_0 aabb_1
             then TakeConnectedAnchorControls box aabb_0 i
                    (butlast (pool[i := last pool])) (acc @ [pool ! i])
             else TakeConnectedAnchorControls box aabb_0 (i + 1) pool acc)
      else Inr (pool, acc))"
  by pat_completeness auto
termination
  by (relation "measure (\<lambda>(box, aabb_0, i, pool, acc). length pool - i)") auto

declare TakeConnectedAnchorControls.simps [simp del]

lemma TakeConnected_length:
  "TakeConnectedAnchorControls box aabb_0 i pool acc = Inr (pool', acc')
     \<Longrightarrow> length pool' + length acc' = length pool + length acc"
proof (induction box aabb_0 i pool acc rule: TakeConnectedAnchorControls.induct)
  case (1 box aabb_0 i pool acc)
  show ?case
  proof (cases "i < length pool")
    case False
    with "1.prems" show ?thesis
      by (simp add: TakeConnectedAnchorControls.simps [of box aabb_0 i pool acc])
  next
    case True
    show ?thesis
    proof (cases "box (fst (pool ! i))")
      case (Inl e)
      with True "1.prems" show ?thesis
        by (simp add: TakeConnectedAnchorControls.simps [of box aabb_0 i pool acc])
    next
      case (Inr aabb_1)
      show ?thesis
      proof (cases "AABB_Intersect aabb_0 aabb_1")
        case hit: True
        from True Inr hit "1.prems"
        have "TakeConnectedAnchorControls box aabb_0 i (butlast (pool[i := last pool]))
                (acc @ [pool ! i]) = Inr (pool', acc')"
          by (simp add: TakeConnectedAnchorControls.simps [of box aabb_0 i pool acc])
        from "1.IH"(1) [OF True Inr hit this] True show ?thesis
          by simp
      next
        case miss: False
        from True Inr miss "1.prems"
        have "TakeConnectedAnchorControls box aabb_0 (i + 1) pool acc = Inr (pool', acc')"
          by (simp add: TakeConnectedAnchorControls.simps [of box aabb_0 i pool acc])
        from "1.IH"(2) [OF True Inr miss this] show ?thesis .
      qed
    qed
  qed
qed

text \<open>
  The loop of \<open>MakeAnchorControlIsland\<close>, lines 350 to 354. A \<open>for ... of\<close> over an array
  visits the cells by index until the index reaches the current length, so it also visits
  the entries pushed while it runs.
\<close>

function Island_loop ::
  "(cref \<Rightarrow> error + AABB) \<Rightarrow> nat \<Rightarrow> anchor list \<Rightarrow> anchor list
     \<Rightarrow> (error \<times> anchor list) + (anchor list \<times> anchor list)" where
  "Island_loop box j pool acc =
     (if j < length acc then
        (case box (fst (acc ! j)) of
           Inl e \<Rightarrow> Inl (e, pool)
         | Inr aabb_0 \<Rightarrow>
             (case TakeConnectedAnchorControls box aabb_0 0 pool acc of
                Inl ep \<Rightarrow> Inl ep
              | Inr (pool', acc') \<Rightarrow> Island_loop box (j + 1) pool' acc'))
      else Inr (pool, acc))"
  by pat_completeness auto
termination
proof (relation "measure (\<lambda>(box, j, pool, acc). length pool + length acc - j)", goal_cases)
  case 1
  show ?case by simp
next
  case (2 box j pool acc aabb_0 pa pool' acc')
  then show ?case
    using TakeConnected_length [of box aabb_0 0 pool acc pool' acc'] by auto
qed

declare Island_loop.simps [simp del]

text \<open>\<open>MakeAnchorControlIsland\<close>, lines 341 to 358.\<close>

definition MakeAnchorControlIsland :: "ContainerCode \<Rightarrow> world \<Rightarrow> nat \<Rightarrow> outcome" where
  "MakeAnchorControlIsland C s w =
     (case objs s w of
        ControlObj c \<Rightarrow> Inl (TypeError, s)
      | WindowObj W \<Rightarrow>
          (case MakeControlAABB C s (Some w) of
             Inl e \<Rightarrow> Inl (e, s)
           | Inr aabb_0 \<Rightarrow>
               (case TakeConnectedAnchorControls (MakeControlAABB C s) aabb_0 0 (AnchorControls W) [] of
                  Inl (e, pool) \<Rightarrow> Inl (e, put_Window w (W\<lparr>AnchorControls := pool\<rparr>) s)
                | Inr (pool, acc) \<Rightarrow>
                    (case Island_loop (MakeControlAABB C s) 0 pool acc of
                       Inl (e, pool') \<Rightarrow> Inl (e, put_Window w (W\<lparr>AnchorControls := pool'\<rparr>) s)
                     | Inr (pool', acc') \<Rightarrow>
                         Inr (put_Window w (W\<lparr>AnchorControls := acc'\<rparr>) s)))))"

text \<open>
  A query of \<open>GetSnapControls\<close> whose out list is \<open>this.AnchorControls\<close>: the discovered
  entries are pushed onto the list of window \<open>w\<close>.
\<close>

definition GetSnapControls_into ::
  "ContainerCode \<Rightarrow> world \<Rightarrow> nat \<Rightarrow> int2 \<Rightarrow> int2 \<Rightarrow> cref list \<Rightarrow> int \<Rightarrow> nat
     \<Rightarrow> (SnapCode \<times> int2) \<times> world" where
  "GetSnapControls_into C s c pos msk excluding offset_scale w =
     (case GetSnapControls C s c pos msk excluding offset_scale of
        (snap, pushed) \<Rightarrow>
          (snap, upd_Window w (\<lambda>W. W\<lparr>AnchorControls := AnchorControls W @ pushed\<rparr>) s))"

text \<open>
  \<open>GatherAnchorControls\<close>, lines 368 to 381: siblings are gathered on side resizers only,
  through the parent container \<open>pc\<close>.
\<close>

definition GatherSiblingAnchors :: "ContainerCode \<Rightarrow> world \<Rightarrow> nat \<Rightarrow> int2 \<Rightarrow> nat \<Rightarrow> world" where
  "GatherSiblingAnchors C s pc msk w =
     (if (x_of msk \<noteq> 0) \<noteq> (y_of msk \<noteq> 0) then
        (let s1 = (if x_of msk > 0 \<or> y_of msk > 0 then
                     (case objs s w of
                        ControlObj c \<Rightarrow> s
                      | WindowObj W \<Rightarrow>
                          (case GetSnapControls_into C s pc (BottomRight W) msk [Some w] 1 w of
                             (snap, s') \<Rightarrow> upd_Window w (UpdateBRSnapRulers (fst snap)) s'))
                   else s);
             s2 = (if x_of msk < 0 \<or> y_of msk < 0 then
                     (case objs s1 w of
                        ControlObj c \<Rightarrow> s1
                      | WindowObj W \<Rightarrow>
                          (case GetSnapControls_into C s1 pc (TopLeft W) msk [Some w] 1 w of
                             (snap, s') \<Rightarrow> upd_Window w (UpdateTLSnapRulers (fst snap)) s'))
                   else s1)
         in s2)
      else s)"

text \<open>
  \<open>GatherAnchorControls\<close>, lines 389 to 398: the children in the body of the window are
  queried through the window itself, with scale 1 when the mask has a positive component
  and with scale -1 when it has a negative one.
\<close>

definition GatherChildAnchors :: "ContainerCode \<Rightarrow> world \<Rightarrow> int2 \<Rightarrow> nat \<Rightarrow> world" where
  "GatherChildAnchors C s msk w =
     (case objs s w of
        ControlObj c \<Rightarrow> s
      | WindowObj W \<Rightarrow>
          (let this_br = int2_Sub (BodyNodeSize W) int2_One;
               s1 = (if x_of msk > 0 \<or> y_of msk > 0
                     then snd (GetSnapControls_into C s w this_br msk [] 1 w) else s);
               s2 = (if x_of msk < 0 \<or> y_of msk < 0
                     then snd (GetSnapControls_into C s1 w this_br msk [] (- 1) w) else s1)
           in s2))"

text \<open>\<open>GatherAnchorControls\<close>, lines 360 to 399.\<close>

definition GatherAnchorControls ::
  "ContainerCode \<Rightarrow> world \<Rightarrow> int2 \<Rightarrow> bool \<Rightarrow> nat \<Rightarrow> outcome" where
  "GatherAnchorControls C s msk gather_sibling_anchors w =
     (case objs s w of
        ControlObj c \<Rightarrow> Inl (TypeError, s)
      | WindowObj W0 \<Rightarrow>
          (let s0 = put_Window w (W0\<lparr>AnchorControls := []\<rparr>) s
           in case (if gather_sibling_anchors then ParentContainer W0 else None) of
                None \<Rightarrow> Inr (GatherChildAnchors C s0 msk w)
              | Some pc \<Rightarrow>
                  (case MakeAnchorControlIsland C (GatherSiblingAnchors C s0 pc msk w) w of
                     Inl e \<Rightarrow> Inl e
                   | Inr s3 \<Rightarrow> Inr (GatherChildAnchors C s3 msk w))))"

section \<open>The resize gesture\<close>

text \<open>
  The handlers call themselves on the anchored controls, and nothing in the code bounds
  the depth: the recursion takes fuel, and \<open>None\<close> is the run that does not return.
  \<open>for_each\<close> is a \<open>for ... of\<close> loop over a list read when the loop starts; an exception
  in the body leaves the loop.
\<close>

fun for_each :: "'a list \<Rightarrow> ('a \<Rightarrow> world \<Rightarrow> outcome option) \<Rightarrow> world \<Rightarrow> outcome option" where
  "for_each [] f s = Some (Inr s)"
| "for_each (a # as) f s =
     (case f a s of
        None \<Rightarrow> None
      | Some (Inl e) \<Rightarrow> Some (Inl e)
      | Some (Inr s') \<Rightarrow> for_each as f s')"

definition AnchorControls_of :: "world \<Rightarrow> nat \<Rightarrow> anchor list" where
  "AnchorControls_of s w =
     (case objs s w of WindowObj W \<Rightarrow> AnchorControls W | ControlObj c \<Rightarrow> [])"

text \<open>
  \<open>OnBeginSize\<close>, lines 421 to 443: the end of the handler. The master arms the detach
  timer and installs the two delegates.
\<close>

definition OnBeginSize_finish :: "int2 \<Rightarrow> bool \<Rightarrow> nat \<Rightarrow> world \<Rightarrow> world" where
  "OnBeginSize_finish msk master_control w s =
     (let s1 = upd_Window w (\<lambda>W. W\<lparr>SizerMoved := False\<rparr>) s
      in if master_control then
           upd_Window w (\<lambda>W. W\<lparr>OnSizeDelegate := Some msk, OnEndSizeDelegate := Some msk\<rparr>)
             (s1\<lparr>timers := timers s1 @ [(1000, w)]\<rparr>)
         else s1)"

text \<open>
  \<open>OnBeginSize\<close>, lines 401 to 444. \<open>control[0] as Window\<close> is a type assertion, which
  TypeScript erases: at run time \<open>window\<close> is \<open>control[0]\<close>, the test \<open>window != null\<close>
  passes for every object, and calling \<open>OnBeginSize\<close> on an object that is not a
  \<open>Window\<close> throws a TypeError, the property being undefined. The model raises it where
  the handler is entered on such an object.
\<close>

fun OnBeginSize ::
  "nat \<Rightarrow> ContainerCode \<Rightarrow> world \<Rightarrow> MouseEvent \<Rightarrow> int2 option \<Rightarrow> bool \<Rightarrow> nat \<Rightarrow> outcome option" where
  "OnBeginSize 0 C s event in_mask master_control w = None"
| "OnBeginSize (Suc n) C s event in_mask master_control w =
     (case objs s w of
        ControlObj c \<Rightarrow> Some (Inl (TypeError, s))
      | WindowObj W0 \<Rightarrow>
          (let mouse_pos = GetMousePosition event;
               W1 = W0\<lparr>DragMouseStartPosition := mouse_pos,
                       DragWindowStartPosition := int2_Copy (Position W0),
                       DragWindowStartSize := int2_Copy (Size W0)\<rparr>;
               msk = (case in_mask of Some m \<Rightarrow> m | None \<Rightarrow> GetSizeMask W1 mouse_pos)
           in case GatherAnchorControls C (put_Window w W1 s) msk master_control w of
                Inl e \<Rightarrow> Some (Inl e)
              | Inr s2 \<Rightarrow>
                  (case for_each (AnchorControls_of s2 w)
                          (\<lambda>control s'.
                             case fst control of
                               None \<Rightarrow> Some (Inr s')
                             | Some a \<Rightarrow>
                                 OnBeginSize n C s' event (Some (fst (snd control))) False a)
                          s2 of
                     None \<Rightarrow> None
                   | Some (Inl e) \<Rightarrow> Some (Inl e)
                   | Some (Inr s3) \<Rightarrow> Some (Inr (OnBeginSize_finish msk master_control w s3)))))"

text \<open>
  The callback given to \<open>setTimeout\<close>, lines 427 to 434, and the firing of a pending
  timer, which runs it once.
\<close>

definition DetachTimeout :: "nat \<Rightarrow> world \<Rightarrow> world" where
  "DetachTimeout w s =
     upd_Window w
       (\<lambda>W. if SizerMoved W = False then RemoveSnapRulers (W\<lparr>AnchorControls := []\<rparr>) else W) s"

definition fire_timer :: "nat \<times> nat \<Rightarrow> world \<Rightarrow> world" where
  "fire_timer t s = DetachTimeout (snd t) (s\<lparr>timers := remove1 t (timers s)\<rparr>)"

text \<open>\<open>OnSize\<close>, lines 447 to 461: the offset of the tick, then size and position from it.\<close>

definition OnSize_offset :: "Window \<Rightarrow> MouseEvent \<Rightarrow> int \<Rightarrow> int2 option \<Rightarrow> int2" where
  "OnSize_offset W event offset_scale master_offset =
     (let mouse_pos = GetMousePosition event;
          offset = (case master_offset of
                      Some mo \<Rightarrow> mo
                    | None \<Rightarrow> int2_Sub mouse_pos (DragMouseStartPosition W))
      in int2_Mul offset (int2_new1 offset_scale))"

definition OnSize_resize :: "Window \<Rightarrow> int2 \<Rightarrow> int2 \<Rightarrow> Window" where
  "OnSize_resize W msk offset =
     (let W1 = W\<lparr>SizerMoved := True\<rparr>;
          W2 = W1\<lparr>Size := int2_Add (DragWindowStartSize W1) (int2_Mul offset msk)\<rparr>;
          position_mask = int2_Min0 msk
      in W2\<lparr>Position := int2_Sub (DragWindowStartPosition W2) (int2_Mul offset position_mask)\<rparr>)"

text \<open>
  \<open>OnSize\<close>, lines 463 to 503: snapping against the parent container. Each block gives
  the state and the offset that is passed on to the anchored controls.
\<close>

definition OnSize_snap_BR ::
  "ContainerCode \<Rightarrow> world \<Rightarrow> nat \<Rightarrow> nat \<Rightarrow> int2 \<Rightarrow> cref list \<Rightarrow> int2 option \<Rightarrow> int2
     \<Rightarrow> world \<times> int2" where
  "OnSize_snap_BR C s pc w msk exclude_controls master_offset offset =
     (case objs s w of
        ControlObj c \<Rightarrow> (s, offset)
      | WindowObj W \<Rightarrow>
          (let snap = fst (GetSnapControls C s pc (BottomRight W) msk exclude_controls 0);
               hit = (fst snap \<noteq> SnapCode_None);
               offset' = (if hit then int2_Add offset (int2_Sub (snd snap) (BottomRight W))
                          else offset);
               W1 = (if hit then set_BottomRight (snd snap) W else W);
               W2 = (if master_offset = None then UpdateBRSnapRulers (fst snap) W1 else W1)
           in (put_Window w W2 s, offset')))"

definition OnSize_snap_TL ::
  "ContainerCode \<Rightarrow> world \<Rightarrow> nat \<Rightarrow> nat \<Rightarrow> int2 \<Rightarrow> cref list \<Rightarrow> int2 option \<Rightarrow> int2
     \<Rightarrow> world \<times> int2" where
  "OnSize_snap_TL C s pc w msk exclude_controls master_offset offset =
     (case objs s w of
        ControlObj c \<Rightarrow> (s, offset)
      | WindowObj W \<Rightarrow>
          (let snap = fst (GetSnapControls C s pc (TopLeft W) msk exclude_controls 0);
               hit = (fst snap \<noteq> SnapCode_None);
               offset' = (if hit then int2_Add offset (int2_Sub (snd snap) (TopLeft W))
                          else offset);
               W1 = (if hit then set_TopLeft (snd snap) W else W);
               W2 = (if master_offset = None then UpdateTLSnapRulers (fst snap) W1 else W1)
           in (put_Window w W2 s, offset')))"

definition OnSize_snap ::
  "ContainerCode \<Rightarrow> world \<Rightarrow> nat \<Rightarrow> int2 \<Rightarrow> int2 option \<Rightarrow> int2 \<Rightarrow> world \<times> int2" where
  "OnSize_snap C s w msk master_offset offset =
     (case objs s w of
        ControlObj c \<Rightarrow> (s, offset)
      | WindowObj W \<Rightarrow>
          (let exclude_controls = Some w # map fst (AnchorControls W)
           in case ParentContainer W of
                None \<Rightarrow> (s, offset)
              | Some pc \<Rightarrow>
                  (let r1 = (if x_of msk > 0 \<or> y_of msk > 0
                             then OnSize_snap_BR C s pc w msk exclude_controls master_offset offset
                             else (s, offset));
                       r2 = (if x_of msk < 0 \<or> y_of msk < 0
                             then OnSize_snap_TL C (fst r1) pc w msk exclude_controls
                                    master_offset (snd r1)
                             else r1)
                   in r2)))"

text \<open>\<open>OnSize\<close>, lines 505 to 508: the clamp to the minimum window size.\<close>

definition OnSize_clamp :: "Window \<Rightarrow> Window" where
  "OnSize_clamp W =
     (let min_window_size = int2_new1 50;
          W1 = W\<lparr>Size := int2_Max (Size W) min_window_size\<rparr>
      in W1\<lparr>Position := int2_Min (Position W1)
                (int2_Sub (int2_Add (DragWindowStartPosition W1) (DragWindowStartSize W1))
                   min_window_size)\<rparr>)"

text \<open>
  \<open>OnSize\<close>, lines 445 to 526. The cursor of the document body is outside this state.
  The last call dereferences \<open>this.ParentContainer\<close> without the guard of line 471.
\<close>

fun OnSize ::
  "nat \<Rightarrow> ContainerCode \<Rightarrow> world \<Rightarrow> MouseEvent \<Rightarrow> int2 \<Rightarrow> int \<Rightarrow> int2 option \<Rightarrow> nat
     \<Rightarrow> outcome option" where
  "OnSize 0 C s event msk offset_scale master_offset w = None"
| "OnSize (Suc n) C s event msk offset_scale master_offset w =
     (case objs s w of
        ControlObj c \<Rightarrow> Some (Inl (TypeError, s))
      | WindowObj W0 \<Rightarrow>
          (let offset0 = OnSize_offset W0 event offset_scale master_offset;
               s1 = put_Window w (OnSize_resize W0 msk offset0) s;
               r = OnSize_snap C s1 w msk master_offset offset0;
               offset = snd r;
               s3 = upd_Window w OnSize_clamp (fst r)
           in case for_each (AnchorControls_of s3 w)
                     (\<lambda>control s'.
                        case fst control of
                          None \<Rightarrow> Some (Inr s')
                        | Some a \<Rightarrow>
                            OnSize n C s' event (fst (snd control)) (snd (snd control))
                              (Some offset) a)
                     s3 of
                None \<Rightarrow> None
              | Some (Inl e) \<Rightarrow> Some (Inl e)
              | Some (Inr s4) \<Rightarrow> Some (UpdateControlSizes_call w s4)))"

text \<open>\<open>OnEndSize\<close>, lines 537 to 550: what the handler does to its own window.\<close>

definition OnEndSize_finish :: "Window \<Rightarrow> Window" where
  "OnEndSize_finish W =
     (let W1 = W\<lparr>AnchorControls := []\<rparr>;
          W2 = RemoveSnapRulers W1
      in W2\<lparr>OnSizeDelegate := None, OnEndSizeDelegate := None\<rparr>)"

text \<open>\<open>OnEndSize\<close>, lines 527 to 551.\<close>

fun OnEndSize :: "nat \<Rightarrow> world \<Rightarrow> MouseEvent \<Rightarrow> int2 \<Rightarrow> nat \<Rightarrow> outcome option" where
  "OnEndSize 0 s event msk w = None"
| "OnEndSize (Suc n) s event msk w =
     (case objs s w of
        ControlObj c \<Rightarrow> Some (Inl (TypeError, s))
      | WindowObj W \<Rightarrow>
          (case for_each (AnchorControls W)
                  (\<lambda>control s'.
                     case fst control of
                       None \<Rightarrow> Some (Inr s')
                     | Some a \<Rightarrow> OnEndSize n s' event msk a)
                  s of
             None \<Rightarrow> None
           | Some (Inl e) \<Rightarrow> Some (Inl e)
           | Some (Inr s1) \<Rightarrow> Some (Inr (upd_Window w OnEndSize_finish s1))))"

text \<open>
  The constructor, lines 60 to 97, with the parsed \<open>--SideBarSize\<close> and the size of the
  body node as arguments. The transient drag fields and \<open>AnchorControls\<close> have no
  initialiser in the source; they are written at gesture begin before they are read.
\<close>

definition Window_new :: "int \<Rightarrow> int2 \<Rightarrow> int2 \<Rightarrow> int2 \<Rightarrow> Window" where
  "Window_new side_bar_size body_size position sz =
     \<lparr>Position = position, Size = sz, ParentContainer = None, ParentNode = None,
      SideBarSize = side_bar_size, BodyNodeSize = body_size,
      DragMouseStartPosition = int2 0 0, DragWindowStartPosition = int2 0 0,
      DragWindowStartSize = int2 0 0, AnchorControls = [],
      SnapRulers = (\<lambda>side. None), SizerMoved = False,
      OnSizeDelegate = None, OnEndSizeDelegate = None\<rparr>"

section \<open>Basic facts about the model\<close>

lemma final_simps [simp]: "final (Inl (e, s)) = s" "final (Inr s) = s"
  by (simp_all add: final_def)

lemma objs_put_Window [simp]:
  "objs (put_Window w W s) = (objs s)(w := WindowObj W)"
  by (simp add: put_Window_def)

lemma timers_put_Window [simp]: "timers (put_Window w W s) = timers s"
  by (simp add: put_Window_def)

lemma OnSize_snap_no_parent:
  "objs s w = WindowObj W \<Longrightarrow> ParentContainer W = None
     \<Longrightarrow> OnSize_snap C s w msk master_offset offset = (s, offset)"
  by (simp add: OnSize_snap_def)

lemma OnSize_resize_fields [simp]:
  "ParentContainer (OnSize_resize W msk d) = ParentContainer W"
  "AnchorControls (OnSize_resize W msk d) = AnchorControls W"
  "DragWindowStartPosition (OnSize_resize W msk d) = DragWindowStartPosition W"
  "DragWindowStartSize (OnSize_resize W msk d) = DragWindowStartSize W"
  "Size (OnSize_resize W msk d) = int2_Add (DragWindowStartSize W) (int2_Mul d msk)"
  "Position (OnSize_resize W msk d) =
     int2_Sub (DragWindowStartPosition W) (int2_Mul d (int2_Min0 msk))"
  by (simp_all add: OnSize_resize_def Let_def)

lemma OnSize_clamp_fields [simp]:
  "ParentContainer (OnSize_clamp W) = ParentContainer W"
  "AnchorControls (OnSize_clamp W) = AnchorControls W"
  "DragWindowStartPosition (OnSize_clamp W) = DragWindowStartPosition W"
  "DragWindowStartSize (OnSize_clamp W) = DragWindowStartSize W"
  "Size (OnSize_clamp W) = int2_Max (Size W) (int2_new1 50)"
  "Position (OnSize_clamp W) =
     int2_Min (Position W)
       (int2_Sub (int2_Add (DragWindowStartPosition W) (DragWindowStartSize W)) (int2_new1 50))"
  by (simp_all add: OnSize_clamp_def Let_def)

lemma OnSize_detached:
  assumes "objs s w = WindowObj W" and "ParentContainer W = None" and "AnchorControls W = []"
  shows "OnSize (Suc n) C s event msk offset_scale master_offset w =
           Some (Inl (TypeError,
             put_Window w
               (OnSize_clamp (OnSize_resize W msk (OnSize_offset W event offset_scale master_offset)))
               (put_Window w (OnSize_resize W msk (OnSize_offset W event offset_scale master_offset)) s)))"
  using assms
  by (simp add: OnSize_snap_def upd_Window_def AnchorControls_of_def
      UpdateControlSizes_call_def Let_def)

lemma UpdateSnapRuler_fields [simp]:
  "Position (UpdateSnapRuler side shown p W) = Position W"
  "Size (UpdateSnapRuler side shown p W) = Size W"
  "ParentContainer (UpdateSnapRuler side shown p W) = ParentContainer W"
  "AnchorControls (UpdateSnapRuler side shown p W) = AnchorControls W"
  "DragWindowStartPosition (UpdateSnapRuler side shown p W) = DragWindowStartPosition W"
  "DragWindowStartSize (UpdateSnapRuler side shown p W) = DragWindowStartSize W"
  "SizerMoved (UpdateSnapRuler side shown p W) = SizerMoved W"
  by (simp_all add: UpdateSnapRuler_def SetSnapRuler_def RemoveSnapRuler_def Let_def
      split: option.split)

lemma UpdateTLSnapRulers_fields [simp]:
  "Position (UpdateTLSnapRulers code W) = Position W"
  "Size (UpdateTLSnapRulers code W) = Size W"
  "ParentContainer (UpdateTLSnapRulers code W) = ParentContainer W"
  "AnchorControls (UpdateTLSnapRulers code W) = AnchorControls W"
  "DragWindowStartPosition (UpdateTLSnapRulers code W) = DragWindowStartPosition W"
  "DragWindowStartSize (UpdateTLSnapRulers code W) = DragWindowStartSize W"
  "SizerMoved (UpdateTLSnapRulers code W) = SizerMoved W"
  by (simp_all add: UpdateTLSnapRulers_def Let_def)

lemma UpdateBRSnapRulers_fields [simp]:
  "Position (UpdateBRSnapRulers code W) = Position W"
  "Size (UpdateBRSnapRulers code W) = Size W"
  "ParentContainer (UpdateBRSnapRulers code W) = ParentContainer W"
  "AnchorControls (UpdateBRSnapRulers code W) = AnchorControls W"
  "DragWindowStartPosition (UpdateBRSnapRulers code W) = DragWindowStartPosition W"
  "DragWindowStartSize (UpdateBRSnapRulers code W) = DragWindowStartSize W"
  "SizerMoved (UpdateBRSnapRulers code W) = SizerMoved W"
  by (simp_all add: UpdateBRSnapRulers_def Let_def)

section \<open>Observations and example states\<close>

text \<open>
  What the theorems read off a run: the window at an address, the error a handler raised,
  and size and position of a window in the state a run ends in, whether it returned or
  threw.
\<close>

definition Window_at :: "world \<Rightarrow> nat \<Rightarrow> Window option" where
  "Window_at s w = (case objs s w of WindowObj W \<Rightarrow> Some W | ControlObj c \<Rightarrow> None)"

definition raised :: "outcome \<Rightarrow> error option" where
  "raised r = (case r of Inl (e, s) \<Rightarrow> Some e | Inr s \<Rightarrow> None)"

definition Size_after :: "outcome option \<Rightarrow> nat \<Rightarrow> int2 option" where
  "Size_after r w =
     (case r of None \<Rightarrow> None | Some r' \<Rightarrow> map_option Size (Window_at (final r') w))"

definition Position_after :: "outcome option \<Rightarrow> nat \<Rightarrow> int2 option" where
  "Position_after r w =
     (case r of None \<Rightarrow> None | Some r' \<Rightarrow> map_option Position (Window_at (final r') w))"

text \<open>
  A container whose snap query never snaps and discovers nothing, a control that is not a
  window, and a window in the middle of a drag that started with the pointer at (100, 50),
  the window at (0, 0) with size (100, 100). In \<open>detached_world\<close> the window has no parent
  container.
\<close>

definition no_snap_Container :: ContainerCode where
  "no_snap_Container =
     \<lparr>SnapBorderSize = 4, SnapQuery = (\<lambda>s c pos msk excluding. (SnapCode_None, pos, []))\<rparr>"

definition plain_Control :: Control where
  "plain_Control =
     \<lparr>Position = int2 0 0, Size = int2 10 10, ParentContainer = None, ParentNode = None\<rparr>"

definition dragged_Window :: Window where
  "dragged_Window =
     (Window_new 5 (int2 90 70) (int2 0 0) (int2 100 100))
       \<lparr>DragMouseStartPosition := int2 100 50, DragWindowStartPosition := int2 0 0,
        DragWindowStartSize := int2 100 100\<rparr>"

definition detached_world :: world where
  "detached_world =
     \<lparr>objs = (\<lambda>a. ControlObj plain_Control)(0 := WindowObj dragged_Window), timers = []\<rparr>"

text \<open>
  A container that snaps a query with mask (1, 1) on the x axis to the point (200, 120)
  and every other query on the y axis to the point (7, 9), and the dragged window attached
  to the container at address 1.
\<close>

definition snapping_Container :: ContainerCode where
  "snapping_Container =
     \<lparr>SnapBorderSize = 4,
      SnapQuery = (\<lambda>s c pos msk excluding.
         if msk = int2 1 1 then (\<lparr>SnapX = True, SnapY = False\<rparr>, int2 200 120, [])
         else (\<lparr>SnapX = False, SnapY = True\<rparr>, int2 7 9, []))\<rparr>"

definition attached_world :: world where
  "attached_world =
     \<lparr>objs = (\<lambda>a. ControlObj plain_Control)
               (0 := WindowObj (dragged_Window\<lparr>ParentContainer := Some 1\<rparr>)),
      timers = []\<rparr>"

section \<open>Edge hit-testing\<close>

text \<open>
  The pointer in the coordinates of the parent node, as \<open>GetSizeMask\<close> computes it, and
  the grab zone \<open>[0, SideBarSize)\<close> of an offset.
\<close>

definition pointer_local :: "Window \<Rightarrow> int2 \<Rightarrow> int2" where
  "pointer_local W mouse_pos =
     (case ParentNode W of Some parent_pos \<Rightarrow> int2_Sub mouse_pos parent_pos | None \<Rightarrow> mouse_pos)"

definition in_grab_zone :: "Window \<Rightarrow> int \<Rightarrow> bool" where
  "in_grab_zone W d \<longleftrightarrow> 0 \<le> d \<and> d < SideBarSize W"

text \<open>A window narrower than two grab zones: 4 wide, with a grab zone of 5.\<close>

definition narrow_Window :: Window where
  "narrow_Window = Window_new 5 (int2 4 80) (int2 0 0) (int2 4 100)"

text \<open>
  C3, as the code has it. Each axis of the mask is computed on its own: it is -1 when the
  offset from TopLeft to the pointer lies in the grab zone; otherwise +1 when the offset
  from the pointer to BottomRight lies in it; otherwise 0. Where both offsets are in
  range the later assignment stands, so the TopLeft side wins.
\<close>

theorem GetSizeMask_TopLeft_wins:
  "GetSizeMask W mouse_pos =
     int2 (if in_grab_zone W (x_of (int2_Sub (pointer_local W mouse_pos) (TopLeft W))) then - 1
           else if in_grab_zone W (x_of (int2_Sub (BottomRight W) (pointer_local W mouse_pos))) then 1
           else 0)
          (if in_grab_zone W (y_of (int2_Sub (pointer_local W mouse_pos) (TopLeft W))) then - 1
           else if in_grab_zone W (y_of (int2_Sub (BottomRight W) (pointer_local W mouse_pos))) then 1
           else 0)"
  by (simp add: GetSizeMask_def pointer_local_def in_grab_zone_def Let_def split: option.split)

text \<open>
  C3 as stated fails: with the pointer at x = 2 over the narrow window both offsets on the
  x axis are 2, inside the grab zone, and the mask is -1 on that axis, not +1.
\<close>

theorem GetSizeMask_both_in_range_counterexample:
  "in_grab_zone narrow_Window
     (x_of (int2_Sub (BottomRight narrow_Window) (pointer_local narrow_Window (int2 2 50)))) \<and>
   in_grab_zone narrow_Window
     (x_of (int2_Sub (pointer_local narrow_Window (int2 2 50)) (TopLeft narrow_Window))) \<and>
   x_of (GetSizeMask narrow_Window (int2 2 50)) = - 1"
  by (simp add: GetSizeMask_def pointer_local_def in_grab_zone_def narrow_Window_def
      Window_new_def TopLeft_def BottomRight_def int2_Sub_def int2_Add_def Let_def)

section \<open>Resize tick of a detached window\<close>

text \<open>
  C1, as the code has it. A resize tick with a mask that has exactly one nonzero axis, on
  a window with no parent container and an empty anchor list, with \<open>d\<close> the offset of the
  tick: the size becomes max(start size + d * mask, 50) and the position
  min(start position - d * min0(mask), start position + start size - 50), per component.
  So whenever the start size is at least 50 on both axes and start size + d * mask is at
  least 50, the size changes by exactly d * mask on the axis of the mask, the size on the
  other axis is unchanged, and the position is start position - d * min0(mask), which is
  the start position on every axis where the mask is not negative. The statement reads
  the window in the state the tick ends in and says nothing on how the tick ends.
\<close>

theorem OnSize_single_axis:
  assumes "objs s w = WindowObj W" and "ParentContainer W = None" and "AnchorControls W = []"
    and "(x_of msk \<noteq> 0) \<noteq> (y_of msk \<noteq> 0)"
    and "d = OnSize_offset W event offset_scale master_offset"
  shows "\<exists>r W'. OnSize (Suc n) C s event msk offset_scale master_offset w = Some r \<and>
           Window_at (final r) w = Some W' \<and>
           Size W' = int2_Max (int2_Add (DragWindowStartSize W) (int2_Mul d msk)) (int2_new1 50) \<and>
           Position W' =
             int2_Min (int2_Sub (DragWindowStartPosition W) (int2_Mul d (int2_Min0 msk)))
               (int2_Sub (int2_Add (DragWindowStartPosition W) (DragWindowStartSize W)) (int2_new1 50)) \<and>
           (50 \<le> x_of (DragWindowStartSize W) \<and> 50 \<le> y_of (DragWindowStartSize W) \<and>
            50 \<le> x_of (DragWindowStartSize W) + x_of d * x_of msk \<and>
            50 \<le> y_of (DragWindowStartSize W) + y_of d * y_of msk
            \<longrightarrow>
              Size W' = int2_Add (DragWindowStartSize W) (int2_Mul d msk) \<and>
              Position W' = int2_Sub (DragWindowStartPosition W) (int2_Mul d (int2_Min0 msk)) \<and>
              (x_of msk = 0 \<longrightarrow> x_of (Size W') = x_of (DragWindowStartSize W)) \<and>
              (y_of msk = 0 \<longrightarrow> y_of (Size W') = y_of (DragWindowStartSize W)) \<and>
              (0 \<le> x_of msk \<longrightarrow> x_of (Position W') = x_of (DragWindowStartPosition W)) \<and>
              (0 \<le> y_of msk \<longrightarrow> y_of (Position W') = y_of (DragWindowStartPosition W)))"
proof -
  let ?W1 = "OnSize_resize W msk d"
  let ?W' = "OnSize_clamp ?W1"
  have run: "OnSize (Suc n) C s event msk offset_scale master_offset w =
               Some (Inl (TypeError, put_Window w ?W' (put_Window w ?W1 s)))"
    using OnSize_detached [OF assms(1-3)] assms(5) by simp
  have at: "Window_at (final (Inl (TypeError, put_Window w ?W' (put_Window w ?W1 s)))) w = Some ?W'"
    by (simp add: Window_at_def)
  have sz: "Size ?W' = int2_Max (int2_Add (DragWindowStartSize W) (int2_Mul d msk)) (int2_new1 50)"
    by simp
  have ps: "Position ?W' =
             int2_Min (int2_Sub (DragWindowStartPosition W) (int2_Mul d (int2_Min0 msk)))
               (int2_Sub (int2_Add (DragWindowStartPosition W) (DragWindowStartSize W)) (int2_new1 50))"
    by simp
  have exact: "50 \<le> x_of (DragWindowStartSize W) \<and> 50 \<le> y_of (DragWindowStartSize W) \<and>
            50 \<le> x_of (DragWindowStartSize W) + x_of d * x_of msk \<and>
            50 \<le> y_of (DragWindowStartSize W) + y_of d * y_of msk
            \<longrightarrow>
              Size ?W' = int2_Add (DragWindowStartSize W) (int2_Mul d msk) \<and>
              Position ?W' = int2_Sub (DragWindowStartPosition W) (int2_Mul d (int2_Min0 msk)) \<and>
              (x_of msk = 0 \<longrightarrow> x_of (Size ?W') = x_of (DragWindowStartSize W)) \<and>
              (y_of msk = 0 \<longrightarrow> y_of (Size ?W') = y_of (DragWindowStartSize W)) \<and>
              (0 \<le> x_of msk \<longrightarrow> x_of (Position ?W') = x_of (DragWindowStartPosition W)) \<and>
              (0 \<le> y_of msk \<longrightarrow> y_of (Position ?W') = y_of (DragWindowStartPosition W))"
  proof (intro impI, elim conjE)
    assume b: "50 \<le> x_of (DragWindowStartSize W)" "50 \<le> y_of (DragWindowStartSize W)"
      "50 \<le> x_of (DragWindowStartSize W) + x_of d * x_of msk"
      "50 \<le> y_of (DragWindowStartSize W) + y_of d * y_of msk"
    have mx: "x_of d * min (x_of msk) 0 = (if x_of msk < 0 then x_of d * x_of msk else 0)"
      by (simp add: min_def)
    have my: "y_of d * min (y_of msk) 0 = (if y_of msk < 0 then y_of d * y_of msk else 0)"
      by (simp add: min_def)
    from b show "Size ?W' = int2_Add (DragWindowStartSize W) (int2_Mul d msk) \<and>
              Position ?W' = int2_Sub (DragWindowStartPosition W) (int2_Mul d (int2_Min0 msk)) \<and>
              (x_of msk = 0 \<longrightarrow> x_of (Size ?W') = x_of (DragWindowStartSize W)) \<and>
              (y_of msk = 0 \<longrightarrow> y_of (Size ?W') = y_of (DragWindowStartSize W)) \<and>
              (0 \<le> x_of msk \<longrightarrow> x_of (Position ?W') = x_of (DragWindowStartPosition W)) \<and>
              (0 \<le> y_of msk \<longrightarrow> y_of (Position ?W') = y_of (DragWindowStartPosition W))"
      by (simp add: int2_Max_def int2_Min_def int2_Add_def int2_Sub_def int2_Mul_def
          int2_Min0_def int2_new1_def mx my)
  qed
  from run at sz ps exact show ?thesis by blast
qed

text \<open>
  Witness for C1: the right edge (mask (1, 0)) dragged by 20 from size (100, 100) gives
  size (120, 100) and leaves the position at (0, 0).
\<close>

theorem OnSize_single_axis_witness:
  "objs detached_world 0 = WindowObj dragged_Window \<and>
   ParentContainer dragged_Window = None \<and> AnchorControls dragged_Window = [] \<and>
   OnSize_offset dragged_Window \<lparr>MousePosition = int2 120 50\<rparr> 1 None = int2 20 0 \<and>
   Size_after (OnSize (Suc 0) no_snap_Container detached_world \<lparr>MousePosition = int2 120 50\<rparr>
                 (int2 1 0) 1 None 0) 0 = Some (int2 120 100) \<and>
   Position_after (OnSize (Suc 0) no_snap_Container detached_world \<lparr>MousePosition = int2 120 50\<rparr>
                 (int2 1 0) 1 None 0) 0 = Some (int2 0 0)"
proof -
  have h1: "objs detached_world 0 = WindowObj dragged_Window"
    by (simp add: detached_world_def)
  have h2: "ParentContainer dragged_Window = None"
    by (simp add: dragged_Window_def Window_new_def)
  have h3: "AnchorControls dragged_Window = []"
    by (simp add: dragged_Window_def Window_new_def)
  have h4: "(x_of (int2 1 0) \<noteq> 0) \<noteq> (y_of (int2 1 0) \<noteq> 0)"
    by simp
  have h5: "int2 20 0 = OnSize_offset dragged_Window \<lparr>MousePosition = int2 120 50\<rparr> 1 None"
    by (simp add: OnSize_offset_def dragged_Window_def Window_new_def GetMousePosition_def
        int2_Sub_def int2_Mul_def int2_new1_def)
  have st: "DragWindowStartSize dragged_Window = int2 100 100"
    "DragWindowStartPosition dragged_Window = int2 0 0"
    by (simp_all add: dragged_Window_def Window_new_def)
  from OnSize_single_axis [OF h1 h2 h3 h4 h5, of 0 no_snap_Container]
  obtain r W' where
    run: "OnSize (Suc 0) no_snap_Container detached_world \<lparr>MousePosition = int2 120 50\<rparr>
            (int2 1 0) 1 None 0 = Some r"
    and at: "Window_at (final r) 0 = Some W'"
    and ex: "50 \<le> x_of (DragWindowStartSize dragged_Window) \<and>
             50 \<le> y_of (DragWindowStartSize dragged_Window) \<and>
             50 \<le> x_of (DragWindowStartSize dragged_Window) + x_of (int2 20 0) * x_of (int2 1 0) \<and>
             50 \<le> y_of (DragWindowStartSize dragged_Window) + y_of (int2 20 0) * y_of (int2 1 0)
             \<longrightarrow> Size W' = int2_Add (DragWindowStartSize dragged_Window) (int2_Mul (int2 20 0) (int2 1 0)) \<and>
                 Position W' = int2_Sub (DragWindowStartPosition dragged_Window)
                                 (int2_Mul (int2 20 0) (int2_Min0 (int2 1 0)))"
    by blast
  from ex have "Size W' = int2 120 100" "Position W' = int2 0 0"
    by (simp_all add: st int2_Add_def int2_Sub_def int2_Mul_def int2_Min0_def)
  with run at h1 h2 h3 h5 show ?thesis
    by (simp add: Size_after_def Position_after_def)
qed

text \<open>
  C1 as stated fails: the right edge dragged by -80 from size (100, 100) would give the
  size (20, 100); the clamp makes it (50, 100), a change of -50 on the x axis.
\<close>

theorem OnSize_clamped_counterexample:
  "objs detached_world 0 = WindowObj dragged_Window \<and>
   ParentContainer dragged_Window = None \<and> AnchorControls dragged_Window = [] \<and>
   OnSize_offset dragged_Window \<lparr>MousePosition = int2 20 50\<rparr> 1 None = int2 (- 80) 0 \<and>
   int2_Add (DragWindowStartSize dragged_Window) (int2_Mul (int2 (- 80) 0) (int2 1 0)) = int2 20 100 \<and>
   Size_after (OnSize (Suc 0) no_snap_Container detached_world \<lparr>MousePosition = int2 20 50\<rparr>
                 (int2 1 0) 1 None 0) 0 = Some (int2 50 100)"
  by (simp add: detached_world_def dragged_Window_def Window_new_def OnSize_offset_def
      GetMousePosition_def int2_Sub_def int2_Mul_def int2_Add_def int2_new1_def int2_Max_def
      int2_Min_def int2_Min0_def
      Size_after_def Window_at_def OnSize_snap_def upd_Window_def AnchorControls_of_def
      UpdateControlSizes_call_def OnSize_resize_def OnSize_clamp_def Let_def)

section \<open>Ticks without a parent container\<close>

text \<open>
  A move tick on a window with no parent container sets the position from the pointer
  offset and throws.
\<close>

lemma OnMove_detached:
  assumes "objs s w = WindowObj W" and "ParentContainer W = None"
  shows "OnMove C s event w = Inl (TypeError, put_Window w (OnMove_dragged W event) s)"
proof -
  have "ParentContainer (OnMove_dragged W event) = None"
    using assms(2) by (simp add: OnMove_dragged_def Let_def)
  with assms(1) show ?thesis
    by (simp add: OnMove_def Let_def UpdateControlSizes_call_def)
qed

text \<open>
  C7: on a window with no parent container a move tick and a resize tick both apply the
  position and size computed from the pointer offset and skip the snap queries and ruler
  updates, and then throw: \<open>this.ParentContainer.UpdateControlSizes()\<close> dereferences the
  \<open>null\<close> parent container. The tick does not complete.
\<close>

theorem detached_tick_raises:
  "objs detached_world 0 = WindowObj dragged_Window \<and>
   ParentContainer dragged_Window = None \<and>
   map_option raised (Some (OnMove no_snap_Container detached_world \<lparr>MousePosition = int2 110 60\<rparr> 0))
     = Some (Some TypeError) \<and>
   Position_after (Some (OnMove no_snap_Container detached_world \<lparr>MousePosition = int2 110 60\<rparr> 0)) 0
     = Some (int2 10 10) \<and>
   map_option raised (OnSize (Suc 0) no_snap_Container detached_world \<lparr>MousePosition = int2 120 50\<rparr>
                 (int2 1 0) 1 None 0) = Some (Some TypeError) \<and>
   Size_after (OnSize (Suc 0) no_snap_Container detached_world \<lparr>MousePosition = int2 120 50\<rparr>
                 (int2 1 0) 1 None 0) 0 = Some (int2 120 100)"
  by (simp add: detached_world_def dragged_Window_def Window_new_def OnSize_offset_def
      GetMousePosition_def int2_Sub_def int2_Mul_def int2_Add_def int2_new1_def int2_Max_def
      int2_Min_def int2_Min0_def raised_def OnMove_def OnMove_dragged_def
      Size_after_def Position_after_def Window_at_def OnSize_snap_def upd_Window_def AnchorControls_of_def
      UpdateControlSizes_call_def OnSize_resize_def OnSize_clamp_def Let_def)

section \<open>Move tick with two snaps\<close>

text \<open>
  C10: in a move tick on a window attached to a container, let \<open>dragged\<close> be the start
  position plus the pointer offset. The top-left query is asked at \<open>dragged\<close>, with the
  window there. When it reports a nonzero snap code, its override is applied as a whole
  vector: the position becomes \<open>snd snap_tl\<close> on both axes; otherwise the position stays
  at \<open>dragged\<close>. The bottom-right query is asked at that position plus the size, with the
  window there. When it reports a nonzero code, the tick ends with the position at its
  point minus the size, on both axes, whatever the top-left query reported: where both
  queries report a nonzero code, the top-left override is overwritten. When it reports no
  snap, the tick ends with the position the top-left step left. The size is untouched and
  the tick returns.
\<close>

theorem OnMove_BottomRight_snap_wins:
  assumes "objs s w = WindowObj W" and "ParentContainer W = Some pc"
    and "dragged = int2_Add (DragWindowStartPosition W)
                     (int2_Sub (GetMousePosition event) (DragMouseStartPosition W))"
    and "snap_tl = fst (GetSnapControls C (put_Window w (W\<lparr>Position := dragged\<rparr>) s) pc
                          dragged (int2 (- 1) (- 1)) [Some w] 0)"
    and "overridden = (if fst snap_tl \<noteq> SnapCode_None then snd snap_tl else dragged)"
    and "snap_br = fst (GetSnapControls C (put_Window w (W\<lparr>Position := overridden\<rparr>) s) pc
                          (int2_Add overridden (Size W)) (int2 1 1) [Some w] 0)"
  shows "\<exists>s' W'. OnMove C s event w = Inr s' \<and> Window_at s' w = Some W' \<and>
           Size W' = Size W \<and>
           Position W' = (if fst snap_br \<noteq> SnapCode_None
                          then int2_Sub (snd snap_br) (Size W) else overridden)"
proof -
  let ?W1 = "OnMove_dragged W event"
  let ?W2 = "OnMove_after_tl snap_tl ?W1"
  let ?W5 = "UpdateBRSnapRulers (fst snap_br)
               (UpdateTLSnapRulers (fst snap_tl) (OnMove_after_br snap_br ?W2))"
  have W1: "?W1 = W\<lparr>Position := dragged\<rparr>"
    using assms(3) by (simp add: OnMove_dragged_def Let_def)
  have tl: "OnMove_snap_tl C s pc w ?W1 = snap_tl"
    unfolding W1 using assms(4) by (simp add: OnMove_snap_tl_def TopLeft_def)
  have W2: "?W2 = W\<lparr>Position := overridden\<rparr>"
    unfolding W1 using assms(5) by (simp add: OnMove_after_tl_def)
  have br: "OnMove_snap_br C s pc w ?W2 = snap_br"
    unfolding W2 using assms(6) by (simp add: OnMove_snap_br_def BottomRight_def)
  have pc1: "ParentContainer ?W1 = Some pc"
    unfolding W1 using assms(2) by simp
  have pc5: "ParentContainer ?W5 = Some pc"
    unfolding W2 using assms(2) by (simp add: OnMove_after_br_def)
  have run: "OnMove C s event w = Inr (put_Window w ?W5 s)"
    using assms(1) pc1 pc5 tl br
    by (simp add: OnMove_def Let_def UpdateControlSizes_call_def)
  have sz: "Size ?W5 = Size W"
    unfolding W2 by (simp add: OnMove_after_br_def)
  have pos: "Position ?W5 = (if fst snap_br \<noteq> SnapCode_None
                             then int2_Sub (snd snap_br) (Size W) else overridden)"
    unfolding W2 by (simp add: OnMove_after_br_def)
  have at: "Window_at (put_Window w ?W5 s) w = Some ?W5"
    by (simp add: Window_at_def)
  from run at sz pos show ?thesis by blast
qed

text \<open>
  Two containers for the witness. The first snaps as a container that leaves the other
  axis where the query point is: a query with mask (1, 1) snaps on x to the line 200,
  every other query on y to the line 9. The second snaps only the top-left query,
  reporting the x axis and the point (7, 9).
\<close>

definition edge_Container :: ContainerCode where
  "edge_Container =
     \<lparr>SnapBorderSize = 4,
      SnapQuery = (\<lambda>s c pos msk excluding.
         if msk = int2 1 1 then (\<lparr>SnapX = True, SnapY = False\<rparr>, int2 200 (y_of pos), [])
         else (\<lparr>SnapX = False, SnapY = True\<rparr>, int2 (x_of pos) 9, []))\<rparr>"

definition top_left_Container :: ContainerCode where
  "top_left_Container =
     \<lparr>SnapBorderSize = 4,
      SnapQuery = (\<lambda>s c pos msk excluding.
         if msk = int2 1 1 then (SnapCode_None, pos, [])
         else (\<lparr>SnapX = True, SnapY = False\<rparr>, int2 7 9, []))\<rparr>"

text \<open>
  Witness for C10, with the pointer moved by (10, 10). In the first container the
  top-left query snaps on y to (10, 9), the bottom-right query is asked at (110, 109) and
  snaps on x to (200, 109), and the position ends at (100, 9): the x of the bottom-right
  snap, and the y that the top-left override had moved the corner to. In the second
  container only the top-left query snaps, reporting the x axis, and the position ends
  at (7, 9) on both axes.
\<close>

theorem OnMove_BottomRight_snap_wins_witness:
  "objs attached_world 0 = WindowObj (dragged_Window\<lparr>ParentContainer := Some 1\<rparr>) \<and>
   fst (GetSnapControls edge_Container
          (put_Window 0 (dragged_Window\<lparr>ParentContainer := Some 1, Position := int2 10 10\<rparr>)
             attached_world)
          1 (int2 10 10) (int2 (- 1) (- 1)) [Some 0] 0)
     = (\<lparr>SnapX = False, SnapY = True\<rparr>, int2 10 9) \<and>
   fst (GetSnapControls edge_Container
          (put_Window 0 (dragged_Window\<lparr>ParentContainer := Some 1, Position := int2 10 9\<rparr>)
             attached_world)
          1 (int2 110 109) (int2 1 1) [Some 0] 0)
     = (\<lparr>SnapX = True, SnapY = False\<rparr>, int2 200 109) \<and>
   Position_after (Some (OnMove edge_Container attached_world \<lparr>MousePosition = int2 110 60\<rparr> 0)) 0
     = Some (int2 100 9) \<and>
   fst (GetSnapControls top_left_Container
          (put_Window 0 (dragged_Window\<lparr>ParentContainer := Some 1, Position := int2 10 10\<rparr>)
             attached_world)
          1 (int2 10 10) (int2 (- 1) (- 1)) [Some 0] 0)
     = (\<lparr>SnapX = True, SnapY = False\<rparr>, int2 7 9) \<and>
   fst (fst (GetSnapControls top_left_Container
          (put_Window 0 (dragged_Window\<lparr>ParentContainer := Some 1, Position := int2 7 9\<rparr>)
             attached_world)
          1 (int2 107 109) (int2 1 1) [Some 0] 0))
     = SnapCode_None \<and>
   Position_after (Some (OnMove top_left_Container attached_world \<lparr>MousePosition = int2 110 60\<rparr> 0)) 0
     = Some (int2 7 9)"
proof -
  let ?W = "dragged_Window\<lparr>ParentContainer := Some 1\<rparr>"
  let ?ev = "\<lparr>MousePosition = int2 110 60\<rparr>"
  let ?tl = "(\<lparr>SnapX = False, SnapY = True\<rparr>, int2 10 9)"
  let ?br = "(\<lparr>SnapX = True, SnapY = False\<rparr>, int2 200 109)"
  let ?tl' = "(\<lparr>SnapX = True, SnapY = False\<rparr>, int2 7 9)"
  let ?br' = "(SnapCode_None, int2 107 109)"
  have h1: "objs attached_world 0 = WindowObj ?W"
    by (simp add: attached_world_def)
  have h2: "ParentContainer ?W = Some 1"
    by simp
  have sz: "Size dragged_Window = int2 100 100"
    by (simp add: dragged_Window_def Window_new_def)
  have h3: "int2 10 10 = int2_Add (DragWindowStartPosition ?W)
                           (int2_Sub (GetMousePosition ?ev) (DragMouseStartPosition ?W))"
    by (simp add: dragged_Window_def Window_new_def GetMousePosition_def int2_Add_def
        int2_Sub_def)
  have h4: "?tl = fst (GetSnapControls edge_Container
                         (put_Window 0 (?W\<lparr>Position := int2 10 10\<rparr>) attached_world)
                         1 (int2 10 10) (int2 (- 1) (- 1)) [Some 0] 0)"
    by (simp add: GetSnapControls_def edge_Container_def)
  have h5: "int2 10 9 = (if fst ?tl \<noteq> SnapCode_None then snd ?tl else int2 10 10)"
    by (simp add: SnapCode_None_def)
  have h6: "?br = fst (GetSnapControls edge_Container
                         (put_Window 0 (?W\<lparr>Position := int2 10 9\<rparr>) attached_world)
                         1 (int2_Add (int2 10 9) (Size ?W)) (int2 1 1) [Some 0] 0)"
    by (simp add: GetSnapControls_def edge_Container_def sz int2_Add_def)
  have k4: "?tl' = fst (GetSnapControls top_left_Container
                         (put_Window 0 (?W\<lparr>Position := int2 10 10\<rparr>) attached_world)
                         1 (int2 10 10) (int2 (- 1) (- 1)) [Some 0] 0)"
    by (simp add: GetSnapControls_def top_left_Container_def)
  have k5: "int2 7 9 = (if fst ?tl' \<noteq> SnapCode_None then snd ?tl' else int2 10 10)"
    by (simp add: SnapCode_None_def)
  have k6: "?br' = fst (GetSnapControls top_left_Container
                         (put_Window 0 (?W\<lparr>Position := int2 7 9\<rparr>) attached_world)
                         1 (int2_Add (int2 7 9) (Size ?W)) (int2 1 1) [Some 0] 0)"
    by (simp add: GetSnapControls_def top_left_Container_def sz int2_Add_def)
  from OnMove_BottomRight_snap_wins [OF h1 h2 h3 h4 h5 h6]
  obtain s' W' where "OnMove edge_Container attached_world ?ev 0 = Inr s'"
    and "Window_at s' 0 = Some W'"
    and "Position W' = (if fst ?br \<noteq> SnapCode_None
                         then int2_Sub (snd ?br) (Size ?W) else int2 10 9)"
    by blast
  then have a: "Position_after (Some (OnMove edge_Container attached_world ?ev 0)) 0
               = Some (int2 100 9)"
    by (simp add: Position_after_def sz int2_Sub_def SnapCode_None_def)
  from OnMove_BottomRight_snap_wins [OF h1 h2 h3 k4 k5 k6]
  obtain s'' W'' where "OnMove top_left_Container attached_world ?ev 0 = Inr s''"
    and "Window_at s'' 0 = Some W''"
    and "Position W'' = (if fst ?br' \<noteq> SnapCode_None
                          then int2_Sub (snd ?br') (Size ?W) else int2 7 9)"
    by blast
  then have b: "Position_after (Some (OnMove top_left_Container attached_world ?ev 0)) 0
               = Some (int2 7 9)"
    by (simp add: Position_after_def)
  have c: "fst (fst (GetSnapControls top_left_Container
          (put_Window 0 (?W\<lparr>Position := int2 7 9\<rparr>) attached_world)
          1 (int2 107 109) (int2 1 1) [Some 0] 0)) = SnapCode_None"
    by (simp add: GetSnapControls_def top_left_Container_def)
  from h1 h4 [symmetric] h6 [symmetric] a k4 [symmetric] b c show ?thesis
    by (simp add: sz int2_Add_def)
qed

section \<open>Anchor-island discovery\<close>

text \<open>
  The relation the island is built over. \<open>hit box aabb e\<close>: the box \<open>aabb\<close> intersects the
  expanded box of the control of entry \<open>e\<close>, the test of line 322. \<open>touches box a e\<close>: the
  expanded box of entry \<open>a\<close> intersects that of entry \<open>e\<close>. \<open>boxed\<close>: the box of the entry
  can be made, which is so when its control is not \<open>null\<close>.
\<close>

definition hit :: "(cref \<Rightarrow> error + AABB) \<Rightarrow> AABB \<Rightarrow> anchor \<Rightarrow> bool" where
  "hit box aabb_0 e = (case box (fst e) of Inl err \<Rightarrow> False | Inr aabb_1 \<Rightarrow> AABB_Intersect aabb_0 aabb_1)"

definition touches :: "(cref \<Rightarrow> error + AABB) \<Rightarrow> anchor \<Rightarrow> anchor \<Rightarrow> bool" where
  "touches box a e = (case box (fst a) of Inl err \<Rightarrow> False | Inr aabb_0 \<Rightarrow> hit box aabb_0 e)"

definition boxed :: "(cref \<Rightarrow> error + AABB) \<Rightarrow> anchor \<Rightarrow> bool" where
  "boxed box e = (case box (fst e) of Inl err \<Rightarrow> False | Inr b \<Rightarrow> True)"

text \<open>
  The connected component of the seed box in a pool of entries: the entries whose box the
  seed box intersects, and the entries whose box is intersected by the box of an entry
  already in the component.
\<close>

inductive_set island_of :: "(cref \<Rightarrow> error + AABB) \<Rightarrow> AABB \<Rightarrow> anchor set \<Rightarrow> anchor set"
  for box :: "cref \<Rightarrow> error + AABB" and seed :: AABB and pool :: "anchor set" where
  near_seed: "e \<in> pool \<Longrightarrow> hit box seed e \<Longrightarrow> e \<in> island_of box seed pool"
| near_member: "a \<in> island_of box seed pool \<Longrightarrow> e \<in> pool \<Longrightarrow> touches box a e
                 \<Longrightarrow> e \<in> island_of box seed pool"

lemma swap_remove_set:
  assumes "i < length pool"
  shows "set (butlast (pool[i := last pool])) \<union> {pool ! i} = set pool"
proof
  show "set (butlast (pool[i := last pool])) \<union> {pool ! i} \<subseteq> set pool"
  proof -
    have "set (butlast (pool[i := last pool])) \<subseteq> set (pool[i := last pool])"
      by (auto dest: in_set_butlastD)
    also have "\<dots> \<subseteq> insert (last pool) (set pool)"
      by (rule set_update_subset_insert)
    also have "\<dots> = set pool"
    proof -
      from assms have "pool \<noteq> []" by auto
      then have "last pool \<in> set pool" by (rule last_in_set)
      then show ?thesis by auto
    qed
    finally show ?thesis using assms by simp
  qed
next
  show "set pool \<subseteq> set (butlast (pool[i := last pool])) \<union> {pool ! i}"
  proof
    fix e assume "e \<in> set pool"
    then obtain k where k: "k < length pool" "pool ! k = e"
      by (auto simp: in_set_conv_nth)
    show "e \<in> set (butlast (pool[i := last pool])) \<union> {pool ! i}"
    proof (cases "k = i")
      case True
      with k show ?thesis by simp
    next
      case False
      let ?q = "butlast (pool[i := last pool])"
      have len: "length ?q = length pool - 1" by simp
      show ?thesis
      proof (cases "k < length pool - 1")
        case True
        then have "?q ! k = e"
          using k False by (simp add: nth_butlast)
        with True len have "e \<in> set ?q"
          by (metis nth_mem)
        then show ?thesis by simp
      next
        case last: False
        with k have kl: "k = length pool - 1" by simp
        moreover from assms have "pool \<noteq> []" by auto
        ultimately have "e = last pool"
          using k by (simp add: last_conv_nth)
        moreover have "i < length pool - 1"
          using assms False kl by simp
        then have "?q ! i = last pool" "i < length ?q"
          using assms by (simp_all add: nth_butlast)
        then have "last pool \<in> set ?q" by (metis nth_mem)
        ultimately show ?thesis by simp
      qed
    qed
  qed
qed

lemma TakeConnected_sound:
  assumes "TakeConnectedAnchorControls box aabb_0 i pool acc = Inr (pool', acc')"
    and "\<forall>k<i. \<not> hit box aabb_0 (pool ! k)"
  shows "(\<forall>e\<in>set pool'. \<not> hit box aabb_0 e) \<and>
         (\<exists>new. acc' = acc @ new \<and> (\<forall>e\<in>set new. hit box aabb_0 e) \<and>
                 set pool' \<union> set new = set pool)"
  using assms
proof (induction box aabb_0 i pool acc rule: TakeConnectedAnchorControls.induct)
  case (1 box aabb_0 i pool acc)
  show ?case
  proof (cases "i < length pool")
    case False
    with "1.prems"(1) have eq: "pool' = pool" "acc' = acc"
      by (simp_all add: TakeConnectedAnchorControls.simps [of box aabb_0 i pool acc])
    have "\<forall>e\<in>set pool. \<not> hit box aabb_0 e"
    proof
      fix e assume "e \<in> set pool"
      then obtain k where "k < length pool" "pool ! k = e"
        by (auto simp: in_set_conv_nth)
      with False "1.prems"(2) show "\<not> hit box aabb_0 e"
        by auto
    qed
    with eq show ?thesis by simp
  next
    case True
    show ?thesis
    proof (cases "box (fst (pool ! i))")
      case (Inl e)
      with True "1.prems"(1) show ?thesis
        by (simp add: TakeConnectedAnchorControls.simps [of box aabb_0 i pool acc])
    next
      case (Inr aabb_1)
      show ?thesis
      proof (cases "AABB_Intersect aabb_0 aabb_1")
        case yes: True
        let ?q = "butlast (pool[i := last pool])"
        from True Inr yes "1.prems"(1)
        have run: "TakeConnectedAnchorControls box aabb_0 i ?q (acc @ [pool ! i]) = Inr (pool', acc')"
          by (simp add: TakeConnectedAnchorControls.simps [of box aabb_0 i pool acc])
        have before: "\<forall>k<i. \<not> hit box aabb_0 (?q ! k)"
          using "1.prems"(2) True by (simp add: nth_butlast)
        from "1.IH"(1) [OF True Inr yes run before]
        obtain new where rest: "\<forall>e\<in>set pool'. \<not> hit box aabb_0 e"
          and new: "acc' = (acc @ [pool ! i]) @ new" "\<forall>e\<in>set new. hit box aabb_0 e"
            "set pool' \<union> set new = set ?q"
          by blast
        have h: "hit box aabb_0 (pool ! i)"
          using Inr yes by (simp add: hit_def)
        have "set pool' \<union> set ((pool ! i) # new) = set pool"
          using new(3) swap_remove_set [OF True] by auto
        with rest new(1,2) h show ?thesis
          by (intro conjI exI [of _ "(pool ! i) # new"]) simp_all
      next
        case no: False
        from True Inr no "1.prems"(1)
        have run: "TakeConnectedAnchorControls box aabb_0 (i + 1) pool acc = Inr (pool', acc')"
          by (simp add: TakeConnectedAnchorControls.simps [of box aabb_0 i pool acc])
        have "\<not> hit box aabb_0 (pool ! i)"
          using Inr no by (simp add: hit_def)
        with "1.prems"(2) have before: "\<forall>k<i + 1. \<not> hit box aabb_0 (pool ! k)"
          by (auto simp: less_Suc_eq)
        from "1.IH"(2) [OF True Inr no run before] show ?thesis .
      qed
    qed
  qed
qed

lemma TakeConnected_total:
  assumes "\<forall>e\<in>set pool. boxed box e"
  shows "\<exists>pool' acc'. TakeConnectedAnchorControls box aabb_0 i pool acc = Inr (pool', acc')"
  using assms
proof (induction box aabb_0 i pool acc rule: TakeConnectedAnchorControls.induct)
  case (1 box aabb_0 i pool acc)
  show ?case
  proof (cases "i < length pool")
    case False
    then show ?thesis
      by (simp add: TakeConnectedAnchorControls.simps [of box aabb_0 i pool acc])
  next
    case True
    with "1.prems" have "boxed box (pool ! i)" by simp
    then obtain aabb_1 where Inr: "box (fst (pool ! i)) = Inr aabb_1"
      by (auto simp: boxed_def split: sum.splits)
    show ?thesis
    proof (cases "AABB_Intersect aabb_0 aabb_1")
      case yes: True
      have "set (butlast (pool[i := last pool])) \<subseteq> set pool"
        using swap_remove_set [OF True] by blast
      with "1.prems" have "\<forall>e\<in>set (butlast (pool[i := last pool])). boxed box e"
        by blast
      from "1.IH"(1) [OF True Inr yes this] True Inr yes show ?thesis
        by (simp add: TakeConnectedAnchorControls.simps [of box aabb_0 i pool acc])
    next
      case no: False
      from "1.IH"(2) [OF True Inr no "1.prems"] True Inr no show ?thesis
        by (simp add: TakeConnectedAnchorControls.simps [of box aabb_0 i pool acc])
    qed
  qed
qed

lemma Island_loop_sound:
  assumes "Island_loop box j pool acc = Inr (pool', acc')"
    and "set acc \<subseteq> island_of box seed P"
    and "set pool \<union> set acc = P"
    and "\<forall>e\<in>set pool. \<not> hit box seed e"
    and "\<forall>k<j. \<forall>e\<in>set pool. \<not> touches box (acc ! k) e"
    and "j \<le> length acc"
  shows "set acc' \<subseteq> island_of box seed P \<and> set pool' \<union> set acc' = P \<and>
         (\<forall>e\<in>set pool'. \<not> hit box seed e) \<and>
         (\<forall>a\<in>set acc'. \<forall>e\<in>set pool'. \<not> touches box a e)"
  using assms
proof (induction box j pool acc rule: Island_loop.induct)
  case (1 box j pool acc)
  show ?case
  proof (cases "j < length acc")
    case False
    with "1.prems"(1) have eq: "pool' = pool" "acc' = acc"
      by (simp_all add: Island_loop.simps [of box j pool acc])
    have "\<forall>a\<in>set acc. \<forall>e\<in>set pool. \<not> touches box a e"
    proof
      fix a assume "a \<in> set acc"
      then obtain k where "k < length acc" "acc ! k = a"
        by (auto simp: in_set_conv_nth)
      with False "1.prems"(5,6) show "\<forall>e\<in>set pool. \<not> touches box a e"
        by auto
    qed
    with eq "1.prems"(2,3,4) show ?thesis by simp
  next
    case True
    from True "1.prems"(1) obtain aabb_0 where bx: "box (fst (acc ! j)) = Inr aabb_0"
      by (cases "box (fst (acc ! j))")
        (simp_all add: Island_loop.simps [of box j pool acc])
    from True bx "1.prems"(1) obtain p1 a1 where
      tk: "TakeConnectedAnchorControls box aabb_0 0 pool acc = Inr (p1, a1)"
      by (cases "TakeConnectedAnchorControls box aabb_0 0 pool acc")
        (auto simp: Island_loop.simps [of box j pool acc])
    from True bx tk "1.prems"(1) have run: "Island_loop box (j + 1) p1 a1 = Inr (pool', acc')"
      by (simp add: Island_loop.simps [of box j pool acc])
    from TakeConnected_sound [OF tk] obtain new where
      rest: "\<forall>e\<in>set p1. \<not> hit box aabb_0 e"
      and new: "a1 = acc @ new" "\<forall>e\<in>set new. hit box aabb_0 e" "set p1 \<union> set new = set pool"
      by auto
    have member: "acc ! j \<in> island_of box seed P"
    proof -
      from True have "acc ! j \<in> set acc" by (rule nth_mem)
      with "1.prems"(2) show ?thesis by blast
    qed
    have i1: "set a1 \<subseteq> island_of box seed P"
    proof -
      have "e \<in> island_of box seed P" if "e \<in> set new" for e
      proof -
        from that new(3) "1.prems"(3) have "e \<in> P" by auto
        moreover from that new(2) bx have "touches box (acc ! j) e"
          by (simp add: touches_def)
        ultimately show ?thesis
          using member by (rule_tac island_of.near_member)
      qed
      with "1.prems"(2) new(1) show ?thesis by auto
    qed
    have i2: "set p1 \<union> set a1 = P"
      using new(1,3) "1.prems"(3) by auto
    have sub: "set p1 \<subseteq> set pool"
      using new(3) by auto
    have i3: "\<forall>e\<in>set p1. \<not> hit box seed e"
      using sub "1.prems"(4) by auto
    have i4: "\<forall>k<j + 1. \<forall>e\<in>set p1. \<not> touches box (a1 ! k) e"
    proof (intro allI impI ballI)
      fix k e assume k: "k < j + 1" and e: "e \<in> set p1"
      show "\<not> touches box (a1 ! k) e"
      proof (cases "k = j")
        case True
        with \<open>j < length acc\<close> new(1) have "a1 ! k = acc ! j"
          by (simp add: nth_append)
        with rest e bx show ?thesis
          by (simp add: touches_def)
      next
        case False
        with k have kj: "k < j" by simp
        with \<open>j < length acc\<close> new(1) have "a1 ! k = acc ! k"
          by (simp add: nth_append)
        with kj e sub "1.prems"(5) show ?thesis
          by auto
      qed
    qed
    have i5: "j + 1 \<le> length a1"
      using True new(1) by simp
    from "1.IH" [OF True bx tk refl run i1 i2 i3 i4 i5] show ?thesis .
  qed
qed

lemma Island_loop_total:
  assumes "\<forall>e\<in>set pool. boxed box e" and "\<forall>e\<in>set acc. boxed box e"
  shows "\<exists>pool' acc'. Island_loop box j pool acc = Inr (pool', acc')"
  using assms
proof (induction box j pool acc rule: Island_loop.induct)
  case (1 box j pool acc)
  show ?case
  proof (cases "j < length acc")
    case False
    then show ?thesis
      by (simp add: Island_loop.simps [of box j pool acc])
  next
    case True
    with "1.prems"(2) have "boxed box (acc ! j)" by simp
    then obtain aabb_0 where bx: "box (fst (acc ! j)) = Inr aabb_0"
      by (auto simp: boxed_def split: sum.splits)
    from TakeConnected_total [OF "1.prems"(1)] obtain p1 a1 where
      tk: "TakeConnectedAnchorControls box aabb_0 0 pool acc = Inr (p1, a1)"
      by blast
    from TakeConnected_sound [OF tk] obtain new where
      new: "a1 = acc @ new" "set p1 \<union> set new = set pool"
      by auto
    from new "1.prems" have b1: "\<forall>e\<in>set p1. boxed box e" and b2: "\<forall>e\<in>set a1. boxed box e"
      by auto
    from "1.IH" [OF True bx tk refl b1 b2] True bx tk show ?thesis
      by (simp add: Island_loop.simps [of box j pool acc])
  qed
qed

lemma island_of_subset: "island_of box seed P \<subseteq> P"
proof
  fix e assume "e \<in> island_of box seed P"
  then show "e \<in> P" by (induction rule: island_of.induct) auto
qed

lemma island_complete:
  assumes "set pool' \<union> set acc' = P"
    and "\<forall>e\<in>set pool'. \<not> hit box seed e"
    and "\<forall>a\<in>set acc'. \<forall>e\<in>set pool'. \<not> touches box a e"
  shows "island_of box seed P \<subseteq> set acc'"
proof
  fix e assume "e \<in> island_of box seed P"
  then show "e \<in> set acc'"
  proof (induction rule: island_of.induct)
    case (near_seed e)
    with assms(1,2) show ?case by auto
  next
    case (near_member a e)
    with assms(1,3) show ?case by auto
  qed
qed

lemma boxed_MakeControlAABB:
  "boxed (MakeControlAABB C s) e \<longleftrightarrow> fst e \<noteq> None"
  by (simp add: boxed_def MakeControlAABB_def split: option.split)

lemma MakeAnchorControlIsland_island:
  assumes "objs s w = WindowObj W" and "\<forall>e\<in>set (AnchorControls W). fst e \<noteq> None"
    and "MakeControlAABB C s (Some w) = Inr seed"
  shows "\<exists>island. MakeAnchorControlIsland C s w = Inr (put_Window w (W\<lparr>AnchorControls := island\<rparr>) s) \<and>
           set island = island_of (MakeControlAABB C s) seed (set (AnchorControls W))"
proof -
  let ?box = "MakeControlAABB C s"
  let ?P = "set (AnchorControls W)"
  have bp: "\<forall>e\<in>set (AnchorControls W). boxed ?box e"
    using assms(2) by (simp add: boxed_MakeControlAABB)
  from TakeConnected_total [OF bp] obtain p1 a1 where
    tk: "TakeConnectedAnchorControls ?box seed 0 (AnchorControls W) [] = Inr (p1, a1)"
    by blast
  from TakeConnected_sound [OF tk] have
    rest: "\<forall>e\<in>set p1. \<not> hit ?box seed e"
    and new: "\<forall>e\<in>set a1. hit ?box seed e" "set p1 \<union> set a1 = ?P"
    by auto
  from new bp have b1: "\<forall>e\<in>set p1. boxed ?box e" and b2: "\<forall>e\<in>set a1. boxed ?box e"
    by auto
  from Island_loop_total [OF b1 b2] obtain p2 a2 where
    il: "Island_loop ?box 0 p1 a1 = Inr (p2, a2)"
    by blast
  have i1: "set a1 \<subseteq> island_of ?box seed ?P"
    using new by (auto intro: island_of.near_seed)
  from Island_loop_sound [OF il i1 new(2) rest] have
    fin: "set a2 \<subseteq> island_of ?box seed ?P" "set p2 \<union> set a2 = ?P"
      "\<forall>e\<in>set p2. \<not> hit ?box seed e" "\<forall>a\<in>set a2. \<forall>e\<in>set p2. \<not> touches ?box a e"
    by auto
  from island_complete [OF fin(2,3,4)] fin(1) have "set a2 = island_of ?box seed ?P"
    by auto
  moreover have "MakeAnchorControlIsland C s w = Inr (put_Window w (W\<lparr>AnchorControls := a2\<rparr>) s)"
    using assms(1,3) tk il by (simp add: MakeAnchorControlIsland_def)
  ultimately show ?thesis by blast
qed

text \<open>
  C4: for a window whose pool of gathered entries holds no \<open>null\<close> control,
  \<open>MakeAnchorControlIsland\<close> returns, and the list it leaves in \<open>AnchorControls\<close> is, as a
  set, the connected component of the window's expanded box in the pool under the
  intersects relation of the expanded boxes. In particular, with A the window that seeds
  the island and B and C entries of the pool: if the box of A intersects that of B and
  the box of B intersects that of C, the island holds B and C. The expansion stops with
  nothing left to add: no entry left out of the island is intersected by the seed box or
  by the box of an entry of the island.
\<close>

theorem MakeAnchorControlIsland_connected_component:
  assumes "objs s w = WindowObj W" and "\<forall>e\<in>set (AnchorControls W). fst e \<noteq> None"
    and "MakeControlAABB C s (Some w) = Inr seed"
    and "box = MakeControlAABB C s" and "pool = set (AnchorControls W)"
  shows "\<exists>s'. MakeAnchorControlIsland C s w = Inr s' \<and>
           set (AnchorControls_of s' w) = island_of box seed pool \<and>
           set (AnchorControls_of s' w) \<subseteq> pool \<and>
           (\<forall>B\<in>pool. \<forall>C'\<in>pool. hit box seed B \<and> touches box B C'
              \<longrightarrow> B \<in> set (AnchorControls_of s' w) \<and> C' \<in> set (AnchorControls_of s' w)) \<and>
           (\<forall>e\<in>pool - set (AnchorControls_of s' w).
              \<not> hit box seed e \<and> (\<forall>a\<in>set (AnchorControls_of s' w). \<not> touches box a e))"
proof -
  from MakeAnchorControlIsland_island [OF assms(1,2,3)] obtain island where
    run: "MakeAnchorControlIsland C s w = Inr (put_Window w (W\<lparr>AnchorControls := island\<rparr>) s)"
    and isl: "set island = island_of box seed pool"
    using assms(4,5) by auto
  let ?s' = "put_Window w (W\<lparr>AnchorControls := island\<rparr>) s"
  have ac: "AnchorControls_of ?s' w = island"
    by (simp add: AnchorControls_of_def)
  have sub: "set island \<subseteq> pool"
    using isl island_of_subset by auto
  have abc: "\<forall>B\<in>pool. \<forall>C'\<in>pool. hit box seed B \<and> touches box B C'
              \<longrightarrow> B \<in> set island \<and> C' \<in> set island"
    unfolding isl by (blast intro: island_of.near_seed island_of.near_member)
  have closed: "\<forall>e\<in>pool - set island. \<not> hit box seed e \<and> (\<forall>a\<in>set island. \<not> touches box a e)"
    unfolding isl by (blast intro: island_of.near_seed island_of.near_member)
  have "MakeAnchorControlIsland C s w = Inr ?s' \<and>
           set (AnchorControls_of ?s' w) = island_of box seed pool \<and>
           set (AnchorControls_of ?s' w) \<subseteq> pool \<and>
           (\<forall>B\<in>pool. \<forall>C'\<in>pool. hit box seed B \<and> touches box B C'
              \<longrightarrow> B \<in> set (AnchorControls_of ?s' w) \<and> C' \<in> set (AnchorControls_of ?s' w)) \<and>
           (\<forall>e\<in>pool - set (AnchorControls_of ?s' w).
              \<not> hit box seed e \<and> (\<forall>a\<in>set (AnchorControls_of ?s' w). \<not> touches box a e))"
    unfolding ac using run isl sub abc closed by (intro conjI)
  then show ?thesis by (rule exI)
qed

text \<open>
  Example for C4: the window at (0, 0) with size (100, 100) and three windows of size
  (50, 50) in its pool, at (400, 400) (apart), at (100, 0) (next to the window) and at
  (150, 0) (next to the second, away from the first). The snap border is 4.
\<close>

definition sibling_Window :: "int2 \<Rightarrow> Window" where
  "sibling_Window position = Window_new 5 (int2 40 30) position (int2 50 50)"

definition island_pool :: "anchor list" where
  "island_pool = [(Some 4, int2 (- 1) 0, 1), (Some 2, int2 (- 1) 0, 1), (Some 3, int2 (- 1) 0, 1)]"

definition island_world :: world where
  "island_world =
     \<lparr>objs = (\<lambda>a. ControlObj plain_Control)
               (0 := WindowObj (dragged_Window\<lparr>AnchorControls := island_pool\<rparr>),
                2 := WindowObj (sibling_Window (int2 100 0)),
                3 := WindowObj (sibling_Window (int2 150 0)),
                4 := WindowObj (sibling_Window (int2 400 400))),
      timers = []\<rparr>"

lemma island_world_boxes:
  "MakeControlAABB no_snap_Container island_world (Some 0) = Inr (AABB (int2 (- 4) (- 4)) (int2 104 104))"
  "MakeControlAABB no_snap_Container island_world (Some 2) = Inr (AABB (int2 96 (- 4)) (int2 154 54))"
  "MakeControlAABB no_snap_Container island_world (Some 3) = Inr (AABB (int2 146 (- 4)) (int2 204 54))"
  "MakeControlAABB no_snap_Container island_world (Some 4) = Inr (AABB (int2 396 396) (int2 454 454))"
  by (simp_all add: MakeControlAABB_def no_snap_Container_def island_world_def
      dragged_Window_def sibling_Window_def Window_new_def obj_TopLeft_def obj_BottomRight_def
      TopLeft_def BottomRight_def AABB_Expand_def int2_Add_def int2_Sub_def int2_new1_def)

text \<open>
  Witness for C4: the island of the example is the second and the third window, in this
  order; the window that is apart is left out.
\<close>

theorem MakeAnchorControlIsland_connected_component_witness:
  "objs island_world 0 = WindowObj (dragged_Window\<lparr>AnchorControls := island_pool\<rparr>) \<and>
   hit (MakeControlAABB no_snap_Container island_world) (AABB (int2 (- 4) (- 4)) (int2 104 104))
     (Some 2, int2 (- 1) 0, 1) \<and>
   touches (MakeControlAABB no_snap_Container island_world)
     (Some 2, int2 (- 1) 0, 1) (Some 3, int2 (- 1) 0, 1) \<and>
   \<not> hit (MakeControlAABB no_snap_Container island_world) (AABB (int2 (- 4) (- 4)) (int2 104 104))
     (Some 3, int2 (- 1) 0, 1) \<and>
   (Some 2, int2 (- 1) 0, 1)
     \<in> set (AnchorControls_of (final (MakeAnchorControlIsland no_snap_Container island_world 0)) 0) \<and>
   (Some 3, int2 (- 1) 0, 1)
     \<in> set (AnchorControls_of (final (MakeAnchorControlIsland no_snap_Container island_world 0)) 0) \<and>
   AnchorControls_of (final (MakeAnchorControlIsland no_snap_Container island_world 0)) 0
     = [(Some 2, int2 (- 1) 0, 1), (Some 3, int2 (- 1) 0, 1)]"
proof -
  let ?W = "dragged_Window\<lparr>AnchorControls := island_pool\<rparr>"
  let ?box = "MakeControlAABB no_snap_Container island_world"
  let ?seed = "AABB (int2 (- 4) (- 4)) (int2 104 104)"
  let ?B = "(Some 2, int2 (- 1) 0, 1) :: anchor"
  let ?C = "(Some 3, int2 (- 1) 0, 1) :: anchor"
  have h1: "objs island_world 0 = WindowObj ?W"
    by (simp add: island_world_def)
  have h2: "\<forall>e\<in>set (AnchorControls ?W). fst e \<noteq> None"
    by (simp add: island_pool_def)
  have h3: "?box (Some 0) = Inr ?seed"
    by (rule island_world_boxes)
  have hb: "hit ?box ?seed ?B"
    by (simp add: hit_def island_world_boxes AABB_Intersect_def)
  have tc: "touches ?box ?B ?C"
    by (simp add: touches_def hit_def island_world_boxes AABB_Intersect_def)
  have nh: "\<not> hit ?box ?seed ?C"
    by (simp add: hit_def island_world_boxes AABB_Intersect_def)
  have inB: "?B \<in> set (AnchorControls ?W)" and inC: "?C \<in> set (AnchorControls ?W)"
    by (simp_all add: island_pool_def)
  from MakeAnchorControlIsland_connected_component [OF h1 h2 h3 refl refl]
  obtain s' where run: "MakeAnchorControlIsland no_snap_Container island_world 0 = Inr s'"
    and abc: "\<forall>B\<in>set (AnchorControls ?W). \<forall>C'\<in>set (AnchorControls ?W).
                hit ?box ?seed B \<and> touches ?box B C'
                \<longrightarrow> B \<in> set (AnchorControls_of s' 0) \<and> C' \<in> set (AnchorControls_of s' 0)"
    by blast
  from abc inB inC hb tc have
    mem: "?B \<in> set (AnchorControls_of s' 0) \<and> ?C \<in> set (AnchorControls_of s' 0)"
    by blast
  have val: "AnchorControls_of (final (MakeAnchorControlIsland no_snap_Container island_world 0)) 0
               = [?B, ?C]"
    by (simp add: MakeAnchorControlIsland_def h1 island_world_boxes island_pool_def
        TakeConnectedAnchorControls.simps Island_loop.simps AABB_Intersect_def
        AnchorControls_of_def)
  from h1 hb tc nh mem val show ?thesis
    unfolding run by simp
qed

section \<open>Loops over the anchored controls\<close>

text \<open>
  Three rules for the loop over the anchored controls: a reflexive and transitive relation
  that every call establishes between its states holds across the loop, whatever the
  outcome; for a loop that returns, so does what each call establishes for its own entry
  when later calls keep it; and a loop whose calls all return does return.
\<close>

lemma for_each_final_rel:
  assumes run: "for_each xs f s = Some r"
    and step: "\<And>a s1 r1. a \<in> set xs \<Longrightarrow> f a s1 = Some r1 \<Longrightarrow> R s1 (final r1)"
    and refl: "\<And>s1. R s1 s1"
    and trans: "\<And>s1 s2 s3. R s1 s2 \<Longrightarrow> R s2 s3 \<Longrightarrow> R s1 s3"
  shows "R s (final r)"
  using run step
proof (induction xs arbitrary: s)
  case Nil
  then show ?case by (auto simp: refl)
next
  case (Cons a as)
  from Cons.prems(1) obtain r1 where r1: "f a s = Some r1"
    by (cases "f a s") simp_all
  have first: "R s (final r1)"
    using Cons.prems(2) [of a s r1] r1 by simp
  show ?case
  proof (cases r1)
    case (Inl es)
    with Cons.prems(1) r1 have "r = r1" by simp
    with first show ?thesis by simp
  next
    case (Inr s1)
    with Cons.prems(1) r1 have rest: "for_each as f s1 = Some r" by simp
    have "R s1 (final r)"
    proof (rule Cons.IH [OF rest])
      fix b t r2 assume "b \<in> set as" "f b t = Some r2"
      then show "R t (final r2)"
        using Cons.prems(2) [of b t r2] by simp
    qed
    with first Inr show ?thesis
      using trans by auto
  qed
qed




section \<open>End of a resize gesture\<close>


inductive_set participants :: "world \<Rightarrow> nat \<Rightarrow> nat set"
  for s :: world and w :: nat where
  master: "objs s w = WindowObj W \<Longrightarrow> w \<in> participants s w"
| anchored: "v \<in> participants s w \<Longrightarrow> objs s v = WindowObj V
               \<Longrightarrow> (Some a, m, sc) \<in> set (AnchorControls V) \<Longrightarrow> objs s a = WindowObj A
               \<Longrightarrow> a \<in> participants s w"




lemma RemoveSnapRulers_none [simp]: "SnapRulers (RemoveSnapRulers W) side = None"
  by (cases side)
    (simp_all add: RemoveSnapRulers_def RemoveSnapRuler_def split: option.split)

lemma RemoveSnapRulers_fields [simp]:
  "Position (RemoveSnapRulers W) = Position W"
  "Size (RemoveSnapRulers W) = Size W"
  "ParentContainer (RemoveSnapRulers W) = ParentContainer W"
  "AnchorControls (RemoveSnapRulers W) = AnchorControls W"
  "DragWindowStartPosition (RemoveSnapRulers W) = DragWindowStartPosition W"
  "DragWindowStartSize (RemoveSnapRulers W) = DragWindowStartSize W"
  "SizerMoved (RemoveSnapRulers W) = SizerMoved W"
  by (simp_all add: RemoveSnapRulers_def RemoveSnapRuler_def split: option.split)

lemma OnEndSize_finish_done [simp]:
  "AnchorControls (OnEndSize_finish W) = []"
  "SnapRulers (OnEndSize_finish W) side = None"
  by (simp_all add: OnEndSize_finish_def Let_def)








text \<open>
  Example for C6: a master (address 0) that anchors the windows 2 and 3 and holds a
  \<open>null\<close> entry; window 2 anchors window 4. Every window shows its left ruler.
\<close>

definition cleared_after :: "outcome option \<Rightarrow> nat \<Rightarrow> bool" where
  "cleared_after r v =
     (case r of
        Some (Inr s') \<Rightarrow>
          (case objs s' v of
             WindowObj V \<Rightarrow> AnchorControls V = [] \<and> SnapRulers V Left = None \<and>
               SnapRulers V Right = None \<and> SnapRulers V Top = None \<and> SnapRulers V Bottom = None
           | ControlObj c \<Rightarrow> False)
      | Some (Inl e) \<Rightarrow> False
      | None \<Rightarrow> False)"

definition ruled_Window :: "int2 \<Rightarrow> anchor list \<Rightarrow> Window" where
  "ruled_Window position anchors =
     SetSnapRuler Left (x_of position - 3)
       ((sibling_Window position)\<lparr>AnchorControls := anchors\<rparr>)"





section \<open>Minimum size at the end of a resize tick\<close>

text \<open>
  \<open>clamped W\<close>: both components of the size are at least 50 and the position is at most
  start position + start size - 50 in both components. \<open>sized s s'\<close> is what a run of
  \<open>OnSize\<close> does to the store: a control that is not a window is left as it was; a window
  keeps its drag snapshot, its anchor list and its parent container and is left as it was
  or is clamped.
\<close>

definition clamped :: "Window \<Rightarrow> bool" where
  "clamped W \<longleftrightarrow>
     50 \<le> x_of (Size W) \<and> 50 \<le> y_of (Size W) \<and>
     x_of (Position W) \<le> x_of (DragWindowStartPosition W) + x_of (DragWindowStartSize W) - 50 \<and>
     y_of (Position W) \<le> y_of (DragWindowStartPosition W) + y_of (DragWindowStartSize W) - 50"

definition sized :: "world \<Rightarrow> world \<Rightarrow> bool" where
  "sized s s' \<longleftrightarrow>
     (\<forall>v. case objs s v of
            ControlObj c \<Rightarrow> objs s' v = ControlObj c
          | WindowObj V \<Rightarrow>
              (\<exists>V'. objs s' v = WindowObj V' \<and>
                 DragWindowStartPosition V' = DragWindowStartPosition V \<and>
                 DragWindowStartSize V' = DragWindowStartSize V \<and>
                 AnchorControls V' = AnchorControls V \<and>
                 ParentContainer V' = ParentContainer V \<and>
                 (V' = V \<or> clamped V')))"

lemma sized_refl: "sized s s"
  by (auto simp: sized_def split: obj.splits)

lemma sized_control:
  "sized s s' \<Longrightarrow> objs s v = ControlObj c \<Longrightarrow> objs s' v = ControlObj c"
  unfolding sized_def by (drule_tac x = v in spec) simp

lemma sized_window:
  "sized s s' \<Longrightarrow> objs s v = WindowObj V
     \<Longrightarrow> \<exists>V'. objs s' v = WindowObj V' \<and>
           DragWindowStartPosition V' = DragWindowStartPosition V \<and>
           DragWindowStartSize V' = DragWindowStartSize V \<and>
           AnchorControls V' = AnchorControls V \<and>
           ParentContainer V' = ParentContainer V \<and> (V' = V \<or> clamped V')"
  unfolding sized_def by (drule_tac x = v in spec) simp

lemma sized_trans:
  assumes "sized s1 s2" and "sized s2 s3"
  shows "sized s1 s3"
  unfolding sized_def
proof
  fix v
  show "case objs s1 v of
          ControlObj c \<Rightarrow> objs s3 v = ControlObj c
        | WindowObj V \<Rightarrow>
            (\<exists>V'. objs s3 v = WindowObj V' \<and>
               DragWindowStartPosition V' = DragWindowStartPosition V \<and>
               DragWindowStartSize V' = DragWindowStartSize V \<and>
               AnchorControls V' = AnchorControls V \<and>
               ParentContainer V' = ParentContainer V \<and>
               (V' = V \<or> clamped V'))"
  proof (cases "objs s1 v")
    case (ControlObj c)
    from sized_control [OF assms(1) ControlObj] have "objs s2 v = ControlObj c" .
    from sized_control [OF assms(2) this] ControlObj show ?thesis by simp
  next
    case (WindowObj V)
    from sized_window [OF assms(1) WindowObj] obtain V2 where V2: "objs s2 v = WindowObj V2"
      "DragWindowStartPosition V2 = DragWindowStartPosition V"
      "DragWindowStartSize V2 = DragWindowStartSize V"
      "AnchorControls V2 = AnchorControls V" "ParentContainer V2 = ParentContainer V"
      "V2 = V \<or> clamped V2"
      by blast
    from sized_window [OF assms(2) V2(1)] obtain V3 where V3: "objs s3 v = WindowObj V3"
      "DragWindowStartPosition V3 = DragWindowStartPosition V2"
      "DragWindowStartSize V3 = DragWindowStartSize V2"
      "AnchorControls V3 = AnchorControls V2" "ParentContainer V3 = ParentContainer V2"
      "V3 = V2 \<or> clamped V3"
      by blast
    from V2 V3 WindowObj show ?thesis by auto
  qed
qed

lemma sized_put:
  assumes "objs s w = WindowObj W"
    and "DragWindowStartPosition W' = DragWindowStartPosition W"
    and "DragWindowStartSize W' = DragWindowStartSize W"
    and "AnchorControls W' = AnchorControls W" and "ParentContainer W' = ParentContainer W"
    and "clamped W'"
  shows "sized s (put_Window w W' s)"
  using assms by (auto simp: sized_def split: obj.splits)

lemma set_corner_fields [simp]:
  "ParentContainer (set_BottomRight p W) = ParentContainer W"
  "AnchorControls (set_BottomRight p W) = AnchorControls W"
  "DragWindowStartPosition (set_BottomRight p W) = DragWindowStartPosition W"
  "DragWindowStartSize (set_BottomRight p W) = DragWindowStartSize W"
  "ParentContainer (set_TopLeft p W) = ParentContainer W"
  "AnchorControls (set_TopLeft p W) = AnchorControls W"
  "DragWindowStartPosition (set_TopLeft p W) = DragWindowStartPosition W"
  "DragWindowStartSize (set_TopLeft p W) = DragWindowStartSize W"
  by (simp_all add: set_BottomRight_def set_TopLeft_def)

text \<open>\<open>same_frame W W'\<close>: the fields a resize tick never writes agree.\<close>

definition same_frame :: "Window \<Rightarrow> Window \<Rightarrow> bool" where
  "same_frame W W' \<longleftrightarrow>
     DragWindowStartPosition W' = DragWindowStartPosition W \<and>
     DragWindowStartSize W' = DragWindowStartSize W \<and>
     AnchorControls W' = AnchorControls W \<and> ParentContainer W' = ParentContainer W"

lemma OnSize_snap_BR_frame:
  assumes "objs s w = WindowObj W"
  shows "\<exists>W'. fst (OnSize_snap_BR C s pc w msk ex mo off) = put_Window w W' s \<and> same_frame W W'"
proof -
  let ?snap = "fst (GetSnapControls C s pc (BottomRight W) msk ex 0)"
  let ?W1 = "if fst ?snap \<noteq> SnapCode_None then set_BottomRight (snd ?snap) W else W"
  let ?W2 = "if mo = None then UpdateBRSnapRulers (fst ?snap) ?W1 else ?W1"
  have "fst (OnSize_snap_BR C s pc w msk ex mo off) = put_Window w ?W2 s"
    using assms by (simp add: OnSize_snap_BR_def Let_def)
  moreover have "same_frame W ?W2"
    by (simp add: same_frame_def)
  ultimately show ?thesis by blast
qed

lemma OnSize_snap_TL_frame:
  assumes "objs s w = WindowObj W"
  shows "\<exists>W'. fst (OnSize_snap_TL C s pc w msk ex mo off) = put_Window w W' s \<and> same_frame W W'"
proof -
  let ?snap = "fst (GetSnapControls C s pc (TopLeft W) msk ex 0)"
  let ?W1 = "if fst ?snap \<noteq> SnapCode_None then set_TopLeft (snd ?snap) W else W"
  let ?W2 = "if mo = None then UpdateTLSnapRulers (fst ?snap) ?W1 else ?W1"
  have "fst (OnSize_snap_TL C s pc w msk ex mo off) = put_Window w ?W2 s"
    using assms by (simp add: OnSize_snap_TL_def Let_def)
  moreover have "same_frame W ?W2"
    by (simp add: same_frame_def)
  ultimately show ?thesis by blast
qed

lemma put_Window_twice [simp]: "put_Window w W' (put_Window w W s) = put_Window w W' s"
  by (simp add: put_Window_def)

lemma put_Window_same: "objs s w = WindowObj W \<Longrightarrow> put_Window w W s = s"
  by (simp add: put_Window_def fun_upd_idem)

lemma OnSize_snap_frame:
  assumes "objs s w = WindowObj W"
  shows "\<exists>W'. fst (OnSize_snap C s w msk mo off) = put_Window w W' s \<and> same_frame W W'"
proof (cases "ParentContainer W")
  case None
  with assms have "fst (OnSize_snap C s w msk mo off) = s"
    by (simp add: OnSize_snap_def)
  with assms show ?thesis
    using put_Window_same [OF assms] by (auto simp: same_frame_def intro!: exI [of _ W])
next
  case (Some pc)
  let ?ex = "Some w # map fst (AnchorControls W)"
  let ?r1 = "if x_of msk > 0 \<or> y_of msk > 0
             then OnSize_snap_BR C s pc w msk ?ex mo off else (s, off)"
  have "\<exists>W1. fst ?r1 = put_Window w W1 s \<and> same_frame W W1"
  proof (cases "x_of msk > 0 \<or> y_of msk > 0")
    case True
    with OnSize_snap_BR_frame [OF assms, of C pc msk ?ex mo off] show ?thesis by simp
  next
    case False
    then show ?thesis
      using put_Window_same [OF assms] by (auto simp: same_frame_def intro!: exI [of _ W])
  qed
  then obtain W1 where W1: "fst ?r1 = put_Window w W1 s" "same_frame W W1" by blast
  then have o1: "objs (fst ?r1) w = WindowObj W1" by simp
  let ?r2 = "if x_of msk < 0 \<or> y_of msk < 0
             then OnSize_snap_TL C (fst ?r1) pc w msk ?ex mo (snd ?r1) else ?r1"
  have "\<exists>W2. fst ?r2 = put_Window w W2 s \<and> same_frame W W2"
  proof (cases "x_of msk < 0 \<or> y_of msk < 0")
    case True
    from OnSize_snap_TL_frame [OF o1, of C pc msk ?ex mo "snd ?r1"]
    obtain W2 where "fst (OnSize_snap_TL C (fst ?r1) pc w msk ?ex mo (snd ?r1)) = put_Window w W2 (fst ?r1)"
      and "same_frame W1 W2" by blast
    with W1 True show ?thesis
      by (auto simp: same_frame_def intro!: exI [of _ W2])
  next
    case False
    with W1 show ?thesis by auto
  qed
  moreover have "OnSize_snap C s w msk mo off = ?r2"
    using assms Some by (simp add: OnSize_snap_def Let_def)
  ultimately show ?thesis by simp
qed

lemma clamped_OnSize_clamp: "clamped (OnSize_clamp W)"
  by (simp add: clamped_def int2_Max_def int2_Min_def int2_new1_def int2_Add_def int2_Sub_def)

lemma same_frame_resize: "same_frame W (OnSize_resize W msk d)"
  by (simp add: same_frame_def)

lemma OnSize_own_part:
  assumes "objs s w = WindowObj W"
  shows "\<exists>W3. upd_Window w OnSize_clamp
                 (fst (OnSize_snap C (put_Window w (OnSize_resize W msk d) s) w msk mo d))
               = put_Window w W3 s \<and> same_frame W W3 \<and> clamped W3"
proof -
  let ?s1 = "put_Window w (OnSize_resize W msk d) s"
  have o1: "objs ?s1 w = WindowObj (OnSize_resize W msk d)" by simp
  from OnSize_snap_frame [OF o1, of C msk mo d] obtain W2 where
    W2: "fst (OnSize_snap C ?s1 w msk mo d) = put_Window w W2 ?s1"
      "same_frame (OnSize_resize W msk d) W2"
    by blast
  have "upd_Window w OnSize_clamp (put_Window w W2 ?s1) = put_Window w (OnSize_clamp W2) s"
    by (simp add: upd_Window_def)
  moreover have "same_frame W (OnSize_clamp W2)"
    using W2(2) by (simp add: same_frame_def)
  ultimately show ?thesis
    using W2(1) clamped_OnSize_clamp by auto
qed

lemma UpdateControlSizes_call_final [simp]: "final (UpdateControlSizes_call w s) = s"
  by (simp add: UpdateControlSizes_call_def split: obj.split option.split)

lemma OnSize_sized:
  "OnSize n C s event msk offset_scale master_offset w = Some r
     \<Longrightarrow> sized s (final r) \<and>
         (\<forall>W. objs s w = WindowObj W \<longrightarrow>
            (\<exists>W'. objs (final r) w = WindowObj W' \<and> same_frame W W' \<and> clamped W'))"
proof (induction n arbitrary: s msk offset_scale master_offset w r)
  case 0
  then show ?case by simp
next
  case (Suc n)
  show ?case
  proof (cases "objs s w")
    case (ControlObj c)
    with Suc.prems show ?thesis by (auto simp: sized_refl)
  next
    case (WindowObj W)
    let ?d = "OnSize_offset W event offset_scale master_offset"
    let ?r = "OnSize_snap C (put_Window w (OnSize_resize W msk ?d) s) w msk master_offset ?d"
    let ?s3 = "upd_Window w OnSize_clamp (fst ?r)"
    let ?f = "\<lambda>control s'. case fst control of None \<Rightarrow> Some (Inr s')
                | Some a \<Rightarrow> OnSize n C s' event (fst (snd control)) (snd (snd control))
                              (Some (snd ?r)) a"
    from OnSize_own_part [OF WindowObj, of C msk ?d master_offset] obtain W3 where
      W3: "?s3 = put_Window w W3 s" "same_frame W W3" "clamped W3"
      by blast
    have o3: "objs ?s3 w = WindowObj W3"
      using W3(1) by simp
    have own: "sized s ?s3"
      unfolding W3(1) using WindowObj W3(2,3)
      by (intro sized_put) (simp_all add: same_frame_def)
    from Suc.prems WindowObj obtain r4 where
      loop: "for_each (AnchorControls_of ?s3 w) ?f ?s3 = Some r4"
      by (cases "for_each (AnchorControls_of ?s3 w) ?f ?s3") (simp_all add: Let_def)
    have rest: "sized ?s3 (final r4)"
    proof (rule for_each_final_rel [OF loop, where R = sized])
      fix control t r1 assume "?f control t = Some r1"
      then show "sized t (final r1)"
        using Suc.IH by (cases "fst control") (auto simp: sized_refl)
    next
      fix t show "sized t t" by (rule sized_refl)
    next
      fix t1 t2 t3 assume "sized t1 t2" "sized t2 t3"
      then show "sized t1 t3" by (rule sized_trans)
    qed
    have fin: "final r = final r4"
      using Suc.prems WindowObj loop by (cases r4) (auto simp: Let_def)
    from own rest have all: "sized s (final r4)" by (rule sized_trans)
    from sized_window [OF rest o3] obtain W' where
      W': "objs (final r4) w = WindowObj W'" "same_frame W3 W'" "W' = W3 \<or> clamped W'"
      by (auto simp: same_frame_def)
    with W3 have "same_frame W W'" "clamped W'"
      by (auto simp: same_frame_def)
    with W' all fin WindowObj show ?thesis by simp
  qed
qed


text \<open>
  A resize tick on a window with no parent container never returns: if an anchored control
  does not throw first, the call of \<open>UpdateControlSizes\<close> does.
\<close>

lemma OnSize_loop_sized:
  assumes "for_each xs
             (\<lambda>control s'. case fst control of None \<Rightarrow> Some (Inr s')
                | Some a \<Rightarrow> OnSize n C s' event (fst (snd control)) (snd (snd control)) off a)
             t = Some r"
  shows "sized t (final r)"
proof (rule for_each_final_rel [OF assms, where R = sized])
  fix control t1 r1
  assume "(case fst control of None \<Rightarrow> Some (Inr t1)
           | Some a \<Rightarrow> OnSize n C t1 event (fst (snd control)) (snd (snd control)) off a) = Some r1"
  then show "sized t1 (final r1)"
    using OnSize_sized by (cases "fst control") (auto simp: sized_refl)
next
  fix t1 show "sized t1 t1" by (rule sized_refl)
next
  fix t1 t2 t3 assume "sized t1 t2" "sized t2 t3"
  then show "sized t1 t3" by (rule sized_trans)
qed

lemma OnSize_no_parent_throws:
  assumes "OnSize n C s event msk offset_scale master_offset w = Some r"
    and "objs s w = WindowObj W" and "ParentContainer W = None"
  shows "\<exists>s'. r = Inl (TypeError, s')"
proof (cases n)
  case 0
  with assms(1) show ?thesis by simp
next
  case (Suc k)
  let ?d = "OnSize_offset W event offset_scale master_offset"
  let ?r = "OnSize_snap C (put_Window w (OnSize_resize W msk ?d) s) w msk master_offset ?d"
  let ?s3 = "upd_Window w OnSize_clamp (fst ?r)"
  let ?f = "\<lambda>control s'. case fst control of None \<Rightarrow> Some (Inr s')
              | Some a \<Rightarrow> OnSize k C s' event (fst (snd control)) (snd (snd control))
                            (Some (snd ?r)) a"
  from OnSize_own_part [OF assms(2), of C msk ?d master_offset] obtain W3 where
    W3: "?s3 = put_Window w W3 s" "same_frame W W3"
    by blast
  have o3: "objs ?s3 w = WindowObj W3"
    using W3(1) by simp
  from assms(1,2) Suc obtain r4 where
    loop: "for_each (AnchorControls_of ?s3 w) ?f ?s3 = Some r4"
    by (cases "for_each (AnchorControls_of ?s3 w) ?f ?s3") (simp_all add: Let_def)
  show ?thesis
  proof (cases r4)
    case (Inl es)
    obtain e s' where es: "es = (e, s')" by (cases es)
    have "e = TypeError" by (cases e) simp
    with assms(1,2) Suc loop Inl es have "r = Inl (TypeError, s')" by (simp add: Let_def)
    then show ?thesis by blast
  next
    case (Inr s4)
    from OnSize_loop_sized [OF loop] Inr have "sized ?s3 s4" by simp
    from sized_window [OF this o3] obtain W4 where
      "objs s4 w = WindowObj W4" "ParentContainer W4 = ParentContainer W3"
      by blast
    with W3(2) assms(3) have "UpdateControlSizes_call w s4 = Inl (TypeError, s4)"
      by (simp add: UpdateControlSizes_call_def same_frame_def)
    with assms(1,2) Suc loop Inr have "r = Inl (TypeError, s4)" by (simp add: Let_def)
    then show ?thesis by blast
  qed
qed







text \<open>
  The bottom-right block leaves the position as it was, and the corner too unless it
  assigns; the top-left block leaves the bottom-right corner as it was, and the position
  too unless it assigns.
\<close>

lemma BottomRight_set_TopLeft [simp]: "BottomRight (set_TopLeft p W) = BottomRight W"
  by (simp add: set_TopLeft_def BottomRight_def int2_Add_def int2_Sub_def)

lemma Position_set_BottomRight [simp]: "Position (set_BottomRight p W) = Position W"
  by (simp add: set_BottomRight_def)

lemma BottomRight_rulers [simp]:
  "BottomRight (UpdateTLSnapRulers code W) = BottomRight W"
  "BottomRight (UpdateBRSnapRulers code W) = BottomRight W"
  by (simp_all add: BottomRight_def)












definition resize_master :: Window where
  "resize_master =
     dragged_Window\<lparr>ParentContainer := Some 1, AnchorControls := [(Some 2, int2 (- 1) 0, 1)]\<rparr>"

definition resize_slave :: Window where
  "resize_slave =
     (sibling_Window (int2 100 0))
       \<lparr>ParentContainer := Some 1, DragMouseStartPosition := int2 100 50,
        DragWindowStartPosition := int2 100 0, DragWindowStartSize := int2 50 50\<rparr>"

definition resize_world :: world where
  "resize_world =
     \<lparr>objs = (\<lambda>a. ControlObj plain_Control)
               (0 := WindowObj resize_master, 2 := WindowObj resize_slave),
      timers = []\<rparr>"











text \<open>
  With a parent container and a mask of mixed signs both snap blocks may assign, and the
  far corner then lies where the points of the container put it: under the container that
  answers every query of such a mask with (7, 9), a tick on the top-right corner with the
  pointer where the gesture began ends at position (7, 9) with size (50, 50).
\<close>

lemma mixed_corner_snap:
  "Size_after (OnSize 2 snapping_Container resize_world \<lparr>MousePosition = int2 100 50\<rparr>
                 (int2 1 (- 1)) 1 None 0) 0 = Some (int2 50 50) \<and>
   Position_after (OnSize 2 snapping_Container resize_world \<lparr>MousePosition = int2 100 50\<rparr>
                 (int2 1 (- 1)) 1 None 0) 0 = Some (int2 7 9)"
  by (simp add: eval_nat_numeral resize_world_def resize_master_def resize_slave_def
      dragged_Window_def sibling_Window_def Window_new_def snapping_Container_def
      OnSize_offset_def OnSize_resize_def OnSize_snap_def OnSize_snap_BR_def OnSize_snap_TL_def
      OnSize_clamp_def GetSnapControls_def GetMousePosition_def upd_Window_def
      AnchorControls_of_def UpdateControlSizes_call_def SnapCode_None_def
      set_BottomRight_def set_TopLeft_def TopLeft_def BottomRight_def
      int2_Sub_def int2_Mul_def int2_Add_def int2_new1_def int2_Max_def int2_Min_def
      int2_Min0_def Size_after_def Position_after_def Window_at_def raised_def Let_def)

section \<open>The detach timer\<close>

text \<open>
  The handlers never turn a window into another kind of object or back: \<open>same_kind\<close>
  holds between the states of every run of \<open>OnBeginSize\<close>.
\<close>

definition same_kind :: "world \<Rightarrow> world \<Rightarrow> bool" where
  "same_kind s s' \<longleftrightarrow> (\<forall>v. (\<exists>V. objs s v = WindowObj V) \<longleftrightarrow> (\<exists>V'. objs s' v = WindowObj V'))"

lemma same_kind_refl: "same_kind s s"
  by (simp add: same_kind_def)

lemma same_kind_trans: "same_kind s1 s2 \<Longrightarrow> same_kind s2 s3 \<Longrightarrow> same_kind s1 s3"
  by (simp add: same_kind_def)

lemma same_kind_put: "objs s w = WindowObj W \<Longrightarrow> same_kind s (put_Window w W' s)"
  by (auto simp: same_kind_def)

lemma same_kind_upd: "same_kind s (upd_Window w f s)"
  by (cases "objs s w") (auto simp: same_kind_def upd_Window_def)

lemma same_kind_window:
  "same_kind s s' \<Longrightarrow> objs s v = WindowObj V \<Longrightarrow> \<exists>V'. objs s' v = WindowObj V'"
  by (auto simp: same_kind_def)

lemma same_kind_into: "same_kind s (snd (GetSnapControls_into C s c pos msk ex sc w))"
  by (simp add: GetSnapControls_into_def same_kind_upd split: prod.split)

lemma same_kind_siblings: "same_kind s (GatherSiblingAnchors C s pc msk w)"
proof -
  have step: "same_kind t
      (case objs t w of
         ControlObj c \<Rightarrow> t
       | WindowObj W \<Rightarrow>
           (case GetSnapControls_into C t pc (p W) msk [Some w] 1 w of
              (snap, s') \<Rightarrow> upd_Window w (g (fst snap)) s'))" for t p g
  proof (cases "objs t w")
    case (ControlObj c)
    then show ?thesis by (simp add: same_kind_refl)
  next
    case (WindowObj W)
    obtain snap s' where r: "GetSnapControls_into C t pc (p W) msk [Some w] 1 w = (snap, s')"
      by (cases "GetSnapControls_into C t pc (p W) msk [Some w] 1 w")
    from same_kind_into [of t C pc "p W" msk "[Some w]" 1 w] r have "same_kind t s'" by simp
    then have "same_kind t (upd_Window w (g (fst snap)) s')"
      using same_kind_upd same_kind_trans by blast
    with WindowObj r show ?thesis by simp
  qed
  show ?thesis
    unfolding GatherSiblingAnchors_def Let_def
    using step [where t = s and p = BottomRight and g = UpdateBRSnapRulers]
      step [where t = s and p = TopLeft and g = UpdateTLSnapRulers]
      step [where t = "case objs s w of
                  ControlObj c \<Rightarrow> s
                | WindowObj W \<Rightarrow>
                    (case GetSnapControls_into C s pc (BottomRight W) msk [Some w] 1 w of
                       (snap, s') \<Rightarrow> upd_Window w (UpdateBRSnapRulers (fst snap)) s')"
               and p = TopLeft and g = UpdateTLSnapRulers]
    by (auto simp: same_kind_refl intro: same_kind_trans)
qed

lemma same_kind_children: "same_kind s (GatherChildAnchors C s msk w)"
proof (cases "objs s w")
  case (ControlObj c)
  then show ?thesis by (simp add: GatherChildAnchors_def same_kind_refl)
next
  case (WindowObj W)
  let ?br = "int2_Sub (BodyNodeSize W) int2_One"
  let ?s1 = "if x_of msk > 0 \<or> y_of msk > 0
             then snd (GetSnapControls_into C s w ?br msk [] 1 w) else s"
  let ?s2 = "if x_of msk < 0 \<or> y_of msk < 0
             then snd (GetSnapControls_into C ?s1 w ?br msk [] (- 1) w) else ?s1"
  have "same_kind s ?s1"
    by (simp add: same_kind_into same_kind_refl)
  moreover have "same_kind ?s1 ?s2"
    using same_kind_into [of ?s1] by (simp add: same_kind_refl)
  ultimately have "same_kind s ?s2" by (rule same_kind_trans)
  with WindowObj show ?thesis by (simp add: GatherChildAnchors_def Let_def)
qed

lemma same_kind_island: "same_kind s (final (MakeAnchorControlIsland C s w))"
  by (auto simp: MakeAnchorControlIsland_def same_kind_refl same_kind_put
      split: obj.split sum.split prod.split)

lemma same_kind_gather: "same_kind s (final (GatherAnchorControls C s msk g w))"
proof (cases "objs s w")
  case (ControlObj c)
  then show ?thesis by (simp add: GatherAnchorControls_def same_kind_refl)
next
  case (WindowObj W0)
  let ?s0 = "put_Window w (W0\<lparr>AnchorControls := []\<rparr>) s"
  have k0: "same_kind s ?s0" using WindowObj by (rule same_kind_put)
  show ?thesis
  proof (cases "if g then ParentContainer W0 else None")
    case None
    with WindowObj have "final (GatherAnchorControls C s msk g w) = GatherChildAnchors C ?s0 msk w"
      by (simp add: GatherAnchorControls_def Let_def)
    with k0 same_kind_children [of ?s0 C msk w] show ?thesis
      by (auto intro: same_kind_trans)
  next
    case (Some pc)
    let ?s1 = "GatherSiblingAnchors C ?s0 pc msk w"
    have k1: "same_kind s ?s1"
      using k0 same_kind_siblings [of ?s0 C pc msk w] by (rule same_kind_trans)
    have k2: "same_kind s (final (MakeAnchorControlIsland C ?s1 w))"
      using k1 same_kind_island [of ?s1 C w] by (rule same_kind_trans)
    show ?thesis
    proof (cases "MakeAnchorControlIsland C ?s1 w")
      case (Inl e)
      with WindowObj Some have "final (GatherAnchorControls C s msk g w)
          = final (MakeAnchorControlIsland C ?s1 w)"
        by (simp add: GatherAnchorControls_def Let_def)
      with k2 show ?thesis by simp
    next
      case (Inr s3)
      with WindowObj Some have "final (GatherAnchorControls C s msk g w)
          = GatherChildAnchors C s3 msk w"
        by (simp add: GatherAnchorControls_def Let_def)
      moreover from k2 Inr have "same_kind s s3" by simp
      ultimately show ?thesis
        using same_kind_children [of s3 C msk w] by (auto intro: same_kind_trans)
    qed
  qed
qed

lemma same_kind_finish: "same_kind s (OnBeginSize_finish msk mc w s)"
proof -
  let ?s1 = "upd_Window w (\<lambda>W. W\<lparr>SizerMoved := False\<rparr>) s"
  have k1: "same_kind s ?s1" by (rule same_kind_upd)
  have "same_kind ?s1 (?s1\<lparr>timers := timers ?s1 @ [(1000, w)]\<rparr>)"
    by (simp add: same_kind_def)
  then have "same_kind ?s1 (upd_Window w
      (\<lambda>W. W\<lparr>OnSizeDelegate := Some msk, OnEndSizeDelegate := Some msk\<rparr>)
      (?s1\<lparr>timers := timers ?s1 @ [(1000, w)]\<rparr>))"
    using same_kind_upd same_kind_trans by blast
  with k1 show ?thesis
    by (auto simp: OnBeginSize_finish_def Let_def intro: same_kind_trans)
qed

lemma OnBeginSize_same_kind:
  "OnBeginSize n C s event in_mask mc w = Some r \<Longrightarrow> same_kind s (final r)"
proof (induction n arbitrary: s in_mask mc w r)
  case 0
  then show ?case by simp
next
  case (Suc n)
  show ?case
  proof (cases "objs s w")
    case (ControlObj c)
    with Suc.prems show ?thesis by (auto simp: same_kind_refl)
  next
    case (WindowObj W0)
    let ?W1 = "W0\<lparr>DragMouseStartPosition := GetMousePosition event,
                   DragWindowStartPosition := int2_Copy (Position W0),
                   DragWindowStartSize := int2_Copy (Size W0)\<rparr>"
    let ?msk = "case in_mask of Some m \<Rightarrow> m | None \<Rightarrow> GetSizeMask ?W1 (GetMousePosition event)"
    let ?s1 = "put_Window w ?W1 s"
    let ?g = "GatherAnchorControls C ?s1 ?msk mc w"
    have k1: "same_kind s ?s1" using WindowObj by (rule same_kind_put)
    have kg: "same_kind s (final ?g)"
      using k1 same_kind_gather [of ?s1 C ?msk mc w] by (rule same_kind_trans)
    show ?thesis
    proof (cases ?g)
      case (Inl e)
      with Suc.prems WindowObj have "r = Inl e" by (simp add: Let_def)
      with kg Inl show ?thesis by simp
    next
      case (Inr s2)
      let ?f = "\<lambda>control s'. case fst control of None \<Rightarrow> Some (Inr s')
                  | Some a \<Rightarrow> OnBeginSize n C s' event (Some (fst (snd control))) False a"
      from Suc.prems WindowObj Inr obtain r3 where
        loop: "for_each (AnchorControls_of s2 w) ?f s2 = Some r3"
        by (cases "for_each (AnchorControls_of s2 w) ?f s2") (simp_all add: Let_def)
      have k3: "same_kind s2 (final r3)"
      proof (rule for_each_final_rel [OF loop, where R = same_kind])
        fix control t r1 assume "?f control t = Some r1"
        then show "same_kind t (final r1)"
          using Suc.IH by (cases "fst control") (auto simp: same_kind_refl)
      next
        fix t show "same_kind t t" by (rule same_kind_refl)
      next
        fix t1 t2 t3 assume "same_kind t1 t2" "same_kind t2 t3"
        then show "same_kind t1 t3" by (rule same_kind_trans)
      qed
      from kg Inr k3 have k: "same_kind s (final r3)"
        by (auto intro: same_kind_trans)
      show ?thesis
      proof (cases r3)
        case (Inl e)
        with Suc.prems WindowObj Inr loop have "r = r3" by (simp add: Let_def)
        with k show ?thesis by simp
      next
        case r3: (Inr s3)
        with Suc.prems WindowObj Inr loop have "r = Inr (OnBeginSize_finish ?msk mc w s3)"
          by (simp add: Let_def)
        with k r3 same_kind_finish [of s3 ?msk mc w] show ?thesis
          by (auto intro: same_kind_trans)
      qed
    qed
  qed
qed

lemma OnBeginSize_master_end:
  assumes "OnBeginSize n C s event in_mask True w = Some (Inr s1)"
  shows "\<exists>s3 W3 msk. objs s3 w = WindowObj W3 \<and> s1 = OnBeginSize_finish msk True w s3"
proof (cases n)
  case 0
  with assms show ?thesis by simp
next
  case (Suc k)
  from assms Suc obtain W0 where W0: "objs s w = WindowObj W0"
    by (cases "objs s w") simp_all
  let ?W1 = "W0\<lparr>DragMouseStartPosition := GetMousePosition event,
                 DragWindowStartPosition := int2_Copy (Position W0),
                 DragWindowStartSize := int2_Copy (Size W0)\<rparr>"
  let ?msk = "case in_mask of Some m \<Rightarrow> m | None \<Rightarrow> GetSizeMask ?W1 (GetMousePosition event)"
  let ?s1 = "put_Window w ?W1 s"
  let ?f = "\<lambda>control s'. case fst control of None \<Rightarrow> Some (Inr s')
              | Some a \<Rightarrow> OnBeginSize k C s' event (Some (fst (snd control))) False a"
  from assms Suc W0 obtain s2 where g: "GatherAnchorControls C ?s1 ?msk True w = Inr s2"
    by (cases "GatherAnchorControls C ?s1 ?msk True w") (simp_all add: Let_def)
  from assms Suc W0 g obtain s3 where
    loop: "for_each (AnchorControls_of s2 w) ?f s2 = Some (Inr s3)"
    and s1: "s1 = OnBeginSize_finish ?msk True w s3"
    by (auto simp: Let_def split: option.splits sum.splits)
  have "same_kind s ?s1" using W0 by (rule same_kind_put)
  moreover have "same_kind ?s1 s2"
    using same_kind_gather [of ?s1 C ?msk True w] g by simp
  moreover have "same_kind s2 s3"
  proof -
    have "same_kind s2 (final (Inr s3))"
    proof (rule for_each_final_rel [OF loop, where R = same_kind])
      fix control t r1 assume "?f control t = Some r1"
      then show "same_kind t (final r1)"
        using OnBeginSize_same_kind by (cases "fst control") (auto simp: same_kind_refl)
    next
      fix t show "same_kind t t" by (rule same_kind_refl)
    next
      fix t1 t2 t3 assume "same_kind t1 t2" "same_kind t2 t3"
      then show "same_kind t1 t3" by (rule same_kind_trans)
    qed
    then show ?thesis by simp
  qed
  ultimately have "same_kind s s3" by (blast intro: same_kind_trans)
  with W0 obtain W3 where "objs s3 w = WindowObj W3"
    using same_kind_window by blast
  with s1 show ?thesis by blast
qed

text \<open>
  After a master resize gesture begin that returned, the detach timer of the window is
  pending with a delay of 1000 ms and the window has recorded no movement; when the timer
  fires in that state, that is with no resize tick in between and before pointer-up, the
  window ends with an empty anchor list and all four ruler slots empty. This holds for
  every mask and every anchor list the begin gathered. Time itself is not modelled: the
  timer is a pending event, and "no tick within 1000 ms" is the timer firing in the state
  the begin handler left. A begin that throws is the subject of the section after the
  next.
\<close>

lemma detach_timer_after_begin:
  assumes "OnBeginSize n C s event None True w = Some (Inr s1)"
  shows "(1000, w) \<in> set (timers s1) \<and>
         (\<exists>W1. Window_at s1 w = Some W1 \<and> SizerMoved W1 = False) \<and>
         (\<exists>W2. Window_at (fire_timer (1000, w) s1) w = Some W2 \<and> AnchorControls W2 = [] \<and>
            SnapRulers W2 Left = None \<and> SnapRulers W2 Right = None \<and>
            SnapRulers W2 Top = None \<and> SnapRulers W2 Bottom = None)"
proof -
  from OnBeginSize_master_end [OF assms] obtain s3 W3 msk where
    W3: "objs s3 w = WindowObj W3" and s1: "s1 = OnBeginSize_finish msk True w s3"
    by blast
  let ?W1 = "W3\<lparr>SizerMoved := False, OnSizeDelegate := Some msk, OnEndSizeDelegate := Some msk\<rparr>"
  have o1: "objs s1 = (objs s3)(w := WindowObj ?W1)"
    and t1: "timers s1 = timers s3 @ [(1000, w)]"
    using W3 by (simp_all add: s1 OnBeginSize_finish_def upd_Window_def Let_def)
  have armed: "(1000, w) \<in> set (timers s1)"
    by (simp add: t1)
  have held: "Window_at s1 w = Some ?W1 \<and> SizerMoved ?W1 = False"
    by (simp add: Window_at_def o1)
  let ?W2 = "RemoveSnapRulers (?W1\<lparr>AnchorControls := []\<rparr>)"
  have "Window_at (fire_timer (1000, w) s1) w = Some ?W2"
    by (simp add: fire_timer_def DetachTimeout_def upd_Window_def o1 Window_at_def)
  moreover have "AnchorControls ?W2 = []" "SnapRulers ?W2 side = None" for side
    by simp_all
  ultimately show ?thesis
    using armed held by blast
qed

text \<open>
  Example: a window of size (50, 50) at (0, 0) that shows its left ruler, attached
  to the container at address 1; address 4 is a window in its body. The container code
  discovers the sibling at address 2 for queries of container 1 and the child at address 4
  for queries of the window itself. The pointer goes down at (48, 48), the bottom-right
  corner, so the mask is (1, 1).
\<close>

definition gesture_Container :: ContainerCode where
  "gesture_Container =
     \<lparr>SnapBorderSize = 4,
      SnapQuery = (\<lambda>s c pos msk excluding.
         if c = 1 then (SnapCode_None, pos, [(Some 2, int2 (- 1) 0)])
         else if c = 0 then (SnapCode_None, pos, [(Some 4, msk)])
         else (SnapCode_None, pos, []))\<rparr>"

definition begin_world :: world where
  "begin_world =
     \<lparr>objs = (\<lambda>a. ControlObj plain_Control)
               (0 := WindowObj ((ruled_Window (int2 0 0) [])\<lparr>ParentContainer := Some 1\<rparr>),
                2 := WindowObj ((sibling_Window (int2 50 0))\<lparr>ParentContainer := Some 1\<rparr>),
                4 := WindowObj ((sibling_Window (int2 0 0))\<lparr>ParentContainer := Some 0\<rparr>)),
      timers = []\<rparr>"

definition corner_begin :: "outcome option" where
  "corner_begin =
     OnBeginSize 2 gesture_Container begin_world \<lparr>MousePosition = int2 48 48\<rparr> None True 0"

lemma corner_begin_run:
  "map_option raised corner_begin = Some None \<and>
   map_option (\<lambda>r. AnchorControls_of (final r) 0) corner_begin = Some [(Some 4, int2 1 1, 1)] \<and>
   map_option (\<lambda>r. map_option (\<lambda>W. SnapRulers W Left) (Window_at (final r) 0)) corner_begin
     = Some (Some (Some \<lparr>Orient = Vertical, RulerPosition = - 3, Colour = ''#FFF''\<rparr>))"
  by (simp add: corner_begin_def eval_nat_numeral begin_world_def gesture_Container_def
      ruled_Window_def sibling_Window_def Window_new_def SetSnapRuler_def
      GatherAnchorControls_def GatherSiblingAnchors_def GatherChildAnchors_def
      MakeAnchorControlIsland_def MakeControlAABB_def TakeConnectedAnchorControls.simps
      Island_loop.simps GetSnapControls_into_def GetSnapControls_def GetSizeMask_def
      GetMousePosition_def OnBeginSize_finish_def upd_Window_def AnchorControls_of_def
      obj_TopLeft_def obj_BottomRight_def TopLeft_def BottomRight_def AABB_Expand_def
      int2_Sub_def int2_Add_def int2_new1_def int2_One_def int2_Copy_def
      raised_def Window_at_def Let_def)

text \<open>
  The anchor list of a window in the state a run ends in, and a run followed by the firing
  of a timer.
\<close>

definition AnchorControls_after :: "outcome option \<Rightarrow> nat \<Rightarrow> anchor list option" where
  "AnchorControls_after r w =
     (case r of None \<Rightarrow> None | Some r' \<Rightarrow> Some (AnchorControls_of (final r') w))"

definition then_fire :: "outcome option \<Rightarrow> nat \<times> nat \<Rightarrow> outcome option" where
  "then_fire r t =
     (case r of
        Some (Inr s) \<Rightarrow> Some (Inr (fire_timer t s))
      | Some (Inl e) \<Rightarrow> Some (Inl e)
      | None \<Rightarrow> None)"

lemma raised_none:
  assumes "map_option raised r = Some None"
  shows "\<exists>s. r = Some (Inr s)"
proof (cases r)
  case None
  with assms show ?thesis by simp
next
  case (Some x)
  with assms show ?thesis
    by (cases x) (auto simp: raised_def)
qed

text \<open>
  The corner gesture of the example begins with the child anchored, so with a nonempty
  anchor list and a ruler shown; after the timer has fired the window has an empty anchor
  list and no ruler.
\<close>

lemma corner_begin_detached:
  "map_option raised corner_begin = Some None \<and>
   AnchorControls_after corner_begin 0 = Some [(Some 4, int2 1 1, 1)] \<and>
   cleared_after (then_fire corner_begin (1000, 0)) 0"
proof -
  from corner_begin_run have "map_option raised corner_begin = Some None" by simp
  from raised_none [OF this] obtain s1 where run: "corner_begin = Some (Inr s1)"
    by blast
  from detach_timer_after_begin [OF run [unfolded corner_begin_def]]
  have "cleared_after (then_fire corner_begin (1000, 0)) 0"
    by (auto simp: cleared_after_def then_fire_def run Window_at_def split: obj.splits)
  with corner_begin_run show ?thesis
    by (auto simp: AnchorControls_after_def run)
qed

section \<open>Anchored controls that are not windows\<close>

text \<open>
  The end handler throws at an anchor list that starts with a control that is not a
  window, and leaves the state as it was.
\<close>

lemma OnEndSize_control_anchor:
  assumes "objs s w = WindowObj W" and "AnchorControls W = (Some a, m, sc) # rest"
    and "objs s a = ControlObj c"
  shows "OnEndSize (Suc (Suc n)) s event msk w = Some (Inl (TypeError, s))"
  using assms by simp

text \<open>
  The states of the examples for C5 and C2 with a plain control, not a window, at address
  2: as a sibling that the container discovers at gesture begin, and as an entry of the
  anchor list of the master during the gesture.
\<close>

definition mixed_world :: world where
  "mixed_world = begin_world\<lparr>objs := (objs begin_world)(2 := ControlObj plain_Control)\<rparr>"

definition control_anchor_world :: world where
  "control_anchor_world = resize_world\<lparr>objs := (objs resize_world)(2 := ControlObj plain_Control)\<rparr>"

text \<open>
  C8: an entry of the anchor list whose control is not a window is not skipped. At gesture
  begin, on a move tick and at gesture end the handler calls the method on it and throws a
  TypeError. At gesture begin the entries have been gathered and stay in the list; at
  gesture end the master keeps its anchor list, which the handler would have cleared.
\<close>

theorem non_Window_anchor_raises:
  "objs mixed_world 2 = ControlObj plain_Control \<and>
   map_option raised
     (OnBeginSize 2 gesture_Container mixed_world \<lparr>MousePosition = int2 48 20\<rparr> None True 0)
     = Some (Some TypeError) \<and>
   AnchorControls_after
     (OnBeginSize 2 gesture_Container mixed_world \<lparr>MousePosition = int2 48 20\<rparr> None True 0) 0
     = Some [(Some 2, int2 (- 1) 0, 1), (Some 4, int2 1 0, 1)] \<and>
   AnchorControls_of control_anchor_world 0 = [(Some 2, int2 (- 1) 0, 1)] \<and>
   objs control_anchor_world 2 = ControlObj plain_Control \<and>
   map_option raised
     (OnSize 2 snapping_Container control_anchor_world \<lparr>MousePosition = int2 20 50\<rparr> (int2 1 0) 1 None 0)
     = Some (Some TypeError) \<and>
   map_option raised
     (OnEndSize 2 control_anchor_world \<lparr>MousePosition = int2 20 50\<rparr> (int2 1 0) 0)
     = Some (Some TypeError) \<and>
   AnchorControls_after
     (OnEndSize 2 control_anchor_world \<lparr>MousePosition = int2 20 50\<rparr> (int2 1 0) 0) 0
     = Some [(Some 2, int2 (- 1) 0, 1)]"
  by (simp add: eval_nat_numeral mixed_world_def control_anchor_world_def begin_world_def
      resize_world_def resize_master_def dragged_Window_def plain_Control_def
      gesture_Container_def snapping_Container_def
      ruled_Window_def sibling_Window_def Window_new_def SetSnapRuler_def
      GatherAnchorControls_def GatherSiblingAnchors_def GatherChildAnchors_def
      MakeAnchorControlIsland_def MakeControlAABB_def TakeConnectedAnchorControls.simps
      Island_loop.simps GetSnapControls_into_def GetSnapControls_def GetSizeMask_def
      GetMousePosition_def OnBeginSize_finish_def upd_Window_def AnchorControls_of_def
      obj_TopLeft_def obj_BottomRight_def TopLeft_def BottomRight_def AABB_Expand_def
      AABB_Intersect_def UpdateBRSnapRulers_def UpdateSnapRuler_def RemoveSnapRuler_def
      OnSize_offset_def OnSize_resize_def OnSize_snap_def OnSize_snap_BR_def OnSize_snap_TL_def
      OnSize_clamp_def UpdateControlSizes_call_def SnapCode_None_def
      set_BottomRight_def set_TopLeft_def
      int2_Sub_def int2_Add_def int2_Mul_def int2_new1_def int2_One_def int2_Copy_def
      int2_Max_def int2_Min_def int2_Min0_def
      raised_def AnchorControls_after_def Let_def)

section \<open>The detach timer after a begin that throws\<close>

text \<open>The timers pending in the state a run ends in.\<close>

definition timers_after :: "outcome option \<Rightarrow> (nat \<times> nat) list option" where
  "timers_after r = (case r of None \<Rightarrow> None | Some r' \<Rightarrow> Some (timers (final r')))"

text \<open>
  C5: a master resize gesture begin does not always arm the detach timer. In the state of
  the example with a plain control, not a window, at address 2, the begin on the right
  edge gathers the control and the child at address 4 into the anchor list and throws a
  TypeError at the call on the control, line 418, before the timer is armed at line 427:
  no timer is pending, so none fires, and the anchor list stays as gathered. With a window
  at address 2 the same handler returns with the timer pending.
\<close>

theorem begin_throws_no_detach_timer:
  "objs mixed_world 2 = ControlObj plain_Control \<and>
   map_option raised
     (OnBeginSize 2 gesture_Container mixed_world \<lparr>MousePosition = int2 48 20\<rparr> None True 0)
     = Some (Some TypeError) \<and>
   timers_after
     (OnBeginSize 2 gesture_Container mixed_world \<lparr>MousePosition = int2 48 20\<rparr> None True 0)
     = Some [] \<and>
   AnchorControls_after
     (OnBeginSize 2 gesture_Container mixed_world \<lparr>MousePosition = int2 48 20\<rparr> None True 0) 0
     = Some [(Some 2, int2 (- 1) 0, 1), (Some 4, int2 1 0, 1)] \<and>
   map_option raised
     (OnBeginSize 2 gesture_Container begin_world \<lparr>MousePosition = int2 48 20\<rparr> None True 0)
     = Some None \<and>
   timers_after
     (OnBeginSize 2 gesture_Container begin_world \<lparr>MousePosition = int2 48 20\<rparr> None True 0)
     = Some [(1000, 0)]"
  by (simp add: eval_nat_numeral mixed_world_def begin_world_def plain_Control_def
      gesture_Container_def timers_after_def
      ruled_Window_def sibling_Window_def Window_new_def SetSnapRuler_def
      GatherAnchorControls_def GatherSiblingAnchors_def GatherChildAnchors_def
      MakeAnchorControlIsland_def MakeControlAABB_def TakeConnectedAnchorControls.simps
      Island_loop.simps GetSnapControls_into_def GetSnapControls_def GetSizeMask_def
      GetMousePosition_def OnBeginSize_finish_def upd_Window_def AnchorControls_of_def
      obj_TopLeft_def obj_BottomRight_def TopLeft_def BottomRight_def AABB_Expand_def
      AABB_Intersect_def UpdateBRSnapRulers_def UpdateSnapRuler_def RemoveSnapRuler_def
      SnapCode_None_def
      int2_Sub_def int2_Add_def int2_new1_def int2_One_def int2_Copy_def
      raised_def AnchorControls_after_def Let_def)

section \<open>A gesture released by the detach timer\<close>







section \<open>Recruiting child panels\<close>

lemma GetSnapControls_into_window:
  assumes "objs s w = WindowObj W"
  shows "snd (GetSnapControls_into C s c pos msk ex sc w) =
           put_Window w
             (W\<lparr>AnchorControls := AnchorControls W @ snd (GetSnapControls C s c pos msk ex sc)\<rparr>) s"
  using assms by (simp add: GetSnapControls_into_def upd_Window_def split: prod.split)

lemma GetSnapControls_scale:
  "e \<in> set (snd (GetSnapControls C s c pos msk ex sc)) \<Longrightarrow> snd (snd e) = sc"
  by (auto simp: GetSnapControls_def split: prod.splits)

text \<open>
  C9: the part of \<open>GatherAnchorControls\<close> that recruits the child panels, lines 389 to 398,
  appends to the anchor list first the panels discovered by a query of the window's own
  body when the mask has a positive component, each with scale +1, and then the panels
  discovered by a second such query when the mask has a negative component, each with
  scale -1; it appends nothing with scale +1 when the mask has no positive component and
  nothing with scale -1 when it has no negative one.
\<close>

theorem GatherChildAnchors_scales:
  assumes "objs s w = WindowObj W"
    and "this_br = int2_Sub (BodyNodeSize W) int2_One"
    and "s1 = (if 0 < x_of msk \<or> 0 < y_of msk
               then snd (GetSnapControls_into C s w this_br msk [] 1 w) else s)"
    and "recruited_pos = (if 0 < x_of msk \<or> 0 < y_of msk
                          then snd (GetSnapControls C s w this_br msk [] 1) else [])"
    and "recruited_neg = (if x_of msk < 0 \<or> y_of msk < 0
                          then snd (GetSnapControls C s1 w this_br msk [] (- 1)) else [])"
  shows "AnchorControls_of (GatherChildAnchors C s msk w) w
           = AnchorControls W @ recruited_pos @ recruited_neg \<and>
         (\<forall>e\<in>set recruited_pos. snd (snd e) = 1) \<and>
         (\<forall>e\<in>set recruited_neg. snd (snd e) = - 1) \<and>
         (\<not> (0 < x_of msk \<or> 0 < y_of msk) \<longrightarrow> recruited_pos = []) \<and>
         (\<not> (x_of msk < 0 \<or> y_of msk < 0) \<longrightarrow> recruited_neg = [])"
proof -
  let ?W1 = "W\<lparr>AnchorControls := AnchorControls W @ recruited_pos\<rparr>"
  have s1: "s1 = put_Window w ?W1 s"
  proof (cases "0 < x_of msk \<or> 0 < y_of msk")
    case True
    with assms(3,4) GetSnapControls_into_window [OF assms(1)] show ?thesis by simp
  next
    case False
    with assms(3,4) show ?thesis
      using assms(1) by (simp add: put_Window_same)
  qed
  then have o1: "objs s1 w = WindowObj ?W1" by simp
  let ?s2 = "if x_of msk < 0 \<or> y_of msk < 0
             then snd (GetSnapControls_into C s1 w this_br msk [] (- 1) w) else s1"
  have s2: "AnchorControls_of ?s2 w = AnchorControls W @ recruited_pos @ recruited_neg"
  proof (cases "x_of msk < 0 \<or> y_of msk < 0")
    case True
    with assms(5) GetSnapControls_into_window [OF o1, of C w this_br msk "[]" "- 1"] show ?thesis
      by (simp add: AnchorControls_of_def)
  next
    case False
    with assms(5) o1 show ?thesis by (simp add: AnchorControls_of_def)
  qed
  have "GatherChildAnchors C s msk w = ?s2"
    using assms(1,2,3) by (simp add: GatherChildAnchors_def Let_def)
  with s2 have "AnchorControls_of (GatherChildAnchors C s msk w) w
                  = AnchorControls W @ recruited_pos @ recruited_neg"
    by simp
  moreover have "\<forall>e\<in>set recruited_pos. snd (snd e) = 1"
    using assms(4) by (auto dest: GetSnapControls_scale)
  moreover have "\<forall>e\<in>set recruited_neg. snd (snd e) = - 1"
    using assms(5) by (auto dest: GetSnapControls_scale)
  ultimately show ?thesis
    using assms(4,5) by simp
qed

text \<open>
  On an anchored window (not the master) this is all that \<open>GatherAnchorControls\<close> does
  after it has emptied the list.
\<close>

lemma GatherAnchorControls_slave:
  assumes "objs s w = WindowObj W"
  shows "GatherAnchorControls C s msk False w
           = Inr (GatherChildAnchors C (put_Window w (W\<lparr>AnchorControls := []\<rparr>) s) msk w)"
  using assms by (simp add: GatherAnchorControls_def Let_def)

text \<open>
  Example for C9: a window whose body (size (40, 30)) holds the window at address 4.
\<close>

definition child_world :: world where
  "child_world =
     \<lparr>objs = (\<lambda>a. ControlObj plain_Control)
               (0 := WindowObj (sibling_Window (int2 0 0)),
                4 := WindowObj ((sibling_Window (int2 0 0))\<lparr>ParentContainer := Some 0\<rparr>)),
      timers = []\<rparr>"

text \<open>
  Witness for C9: the child is recruited with scale +1 for the mask (1, 0), with scale -1
  for (0, -1), once with each scale for (1, -1), and not at all for (0, 0).
\<close>

theorem GatherChildAnchors_scales_witness:
  "objs child_world 0 = WindowObj (sibling_Window (int2 0 0)) \<and>
   BodyNodeSize (sibling_Window (int2 0 0)) = int2 40 30 \<and>
   AnchorControls_of (GatherChildAnchors gesture_Container child_world (int2 1 0) 0) 0
     = [(Some 4, int2 1 0, 1)] \<and>
   AnchorControls_of (GatherChildAnchors gesture_Container child_world (int2 0 (- 1)) 0) 0
     = [(Some 4, int2 0 (- 1), - 1)] \<and>
   AnchorControls_of (GatherChildAnchors gesture_Container child_world (int2 1 (- 1)) 0) 0
     = [(Some 4, int2 1 (- 1), 1), (Some 4, int2 1 (- 1), - 1)] \<and>
   AnchorControls_of (GatherChildAnchors gesture_Container child_world (int2 0 0) 0) 0 = []"
proof -
  let ?W = "sibling_Window (int2 0 0)"
  have o0: "objs child_world 0 = WindowObj ?W"
    by (simp add: child_world_def)
  have body: "BodyNodeSize ?W = int2 40 30" and none: "AnchorControls ?W = []"
    by (simp_all add: sibling_Window_def Window_new_def)
  have br: "int2 39 29 = int2_Sub (BodyNodeSize ?W) int2_One"
    by (simp add: body int2_Sub_def int2_One_def)
  have q: "snd (GetSnapControls gesture_Container t 0 p m [] sc) = [(Some 4, m, sc)]" for t p m sc
    by (simp add: GetSnapControls_def gesture_Container_def)
  have "AnchorControls_of (GatherChildAnchors gesture_Container child_world m 0) 0
          = (if 0 < x_of m \<or> 0 < y_of m then [(Some 4, m, 1)] else [])
            @ (if x_of m < 0 \<or> y_of m < 0 then [(Some 4, m, - 1)] else [])" for m
    using GatherChildAnchors_scales [OF o0 br refl refl refl, where msk = m and C = gesture_Container]
    by (simp add: none q)
  from this [of "int2 1 0"] this [of "int2 0 (- 1)"] this [of "int2 1 (- 1)"] this [of "int2 0 0"]
    o0 body
  show ?thesis by simp
qed

end
